theory Spec2Isabelle
  imports Main "HOL-Library.Multiset"
begin

section \<open>Python values, exceptions and the script's actions\<close>

text \<open>
  The program is one Streamlit script, \<^verbatim>\<open>streamlit_app.py\<close>. Every user interaction runs
  the script again from the top; what survives between runs is \<^verbatim>\<open>st.session_state\<close>.
  The script talks to two things outside itself: the chat-completion service (through
  \<^verbatim>\<open>get_json_response\<close>) and Python's random number generator (through
  \<^verbatim>\<open>random.shuffle\<close>). Both are parameters of the model.

  An exception is a value of \<open>py_error\<close>. \<open>GatewayError\<close> stands for whatever the client
  call or \<^verbatim>\<open>json.loads\<close> raises; \<open>TypeError\<close> is the subscript of \<^verbatim>\<open>None\<close>;
  \<open>StopException\<close> is what \<^verbatim>\<open>st.stop()\<close> raises to end the current run.
\<close>

datatype py_error = KeyError string | TypeError | GatewayError | StopException

text \<open>
  A reply of the service is a JSON object whose values are strings, as every prompt of the
  script requests: an insertion-ordered list of key/value pairs with distinct keys.
\<close>

type_synonym json_object = "(string \<times> string) list"

text \<open>
  The three quiz dictionaries hold strings and one list of strings. The empty dictionary
  \<^verbatim>\<open>{}\<close> is the empty list, and \<^verbatim>\<open>not d\<close> is \<open>d = []\<close>.
\<close>

datatype pyval = Str string | StrList "string list"

type_synonym quiz_dict = "(string \<times> pyval) list"

definition getitem :: "(string \<times> 'v) list \<Rightarrow> string \<Rightarrow> py_error + 'v" where
  "getitem d k = (case map_of d k of None \<Rightarrow> Inl (KeyError k) | Some v \<Rightarrow> Inr v)"

definition subscript :: "json_object option \<Rightarrow> string \<Rightarrow> py_error + string" where
  "subscript obj k = (case obj of None \<Rightarrow> Inl TypeError | Some d \<Rightarrow> getitem d k)"

definition dict_values :: "(string \<times> 'v) list \<Rightarrow> 'v list" where
  "dict_values d = map snd d"

text \<open>The six system prompts of the helper functions, by the function that sends them.\<close>

datatype prompt =
  RandomTopic | KoreanSentence | EnglishToHangul | EnglishToPronunciation
  | HangulToPronunciation | WrongAnswers

datatype button =
  NextHangul | CheckAnswer | NextEnglish | NextFillBlank | NextContinue | NewTopic | EndGame

datatype elem =
  Subheader string | Write "pyval list" | WriteBold pyval | Radio string pyval
  | Button button | Success string | ErrorBox string

record session =
  topic_info :: "json_object option"
  step :: int
  hangul_quiz_data :: quiz_dict
  english_quiz_data :: quiz_dict
  fill_blank_data :: quiz_dict

text \<open>
  The state a run works on: the session, the service (\<open>gateway n p u\<close> is the reply to
  the \<open>n\<close>-th call, made with system prompt \<open>p\<close> and user prompt \<open>u\<close>), the log of the
  calls made so far, the random generator (\<open>randbelow k n\<close> is the \<open>k\<close>-th draw, asked for
  a number below \<open>n\<close>), the number of draws made, and the page rendered so far.
\<close>

record state =
  session_state :: session
  gateway :: "nat \<Rightarrow> prompt \<Rightarrow> string \<Rightarrow> py_error + json_object"
  calls :: "(prompt \<times> string) list"
  randbelow :: "nat \<Rightarrow> nat \<Rightarrow> nat"
  draws :: nat
  page :: "elem list"

text \<open>What the user did to cause a run: the button clicked, if any, and the radio selection.\<close>

record ui =
  clicked :: "button option"
  choice :: string

type_synonym 'a action = "state \<Rightarrow> (py_error + 'a) \<times> state"

definition ret :: "'a \<Rightarrow> 'a action" where
  "ret x t = (Inr x, t)"

definition lift :: "py_error + 'a \<Rightarrow> 'a action" where
  "lift r t = (r, t)"

definition raise :: "py_error \<Rightarrow> 'a action" where
  "raise e t = (Inl e, t)"

definition py_bind :: "'a action \<Rightarrow> ('a \<Rightarrow> 'b action) \<Rightarrow> 'b action" where
  "py_bind m f t = (case m t of (Inl e, t') \<Rightarrow> (Inl e, t') | (Inr x, t') \<Rightarrow> f x t')"

definition py_then :: "'a action \<Rightarrow> 'b action \<Rightarrow> 'b action" where
  "py_then m n = py_bind m (\<lambda>_. n)"

definition get_session :: "session action" where
  "get_session t = (Inr (session_state t), t)"

definition modify :: "(session \<Rightarrow> session) \<Rightarrow> unit action" where
  "modify f t = (Inr (), t\<lparr>session_state := f (session_state t)\<rparr>)"

definition emit :: "elem \<Rightarrow> unit action" where
  "emit e t = (Inr (), t\<lparr>page := page t @ [e]\<rparr>)"

text \<open>\<^verbatim>\<open>st.button\<close> draws the button and is true in the run its click caused.\<close>

definition st_button :: "ui \<Rightarrow> button \<Rightarrow> bool action" where
  "st_button inp b t = (Inr (clicked inp = Some b), t\<lparr>page := page t @ [Button b]\<rparr>)"

text \<open>
  \<^verbatim>\<open>st.radio\<close> draws the options and returns the one selected. The widget offers only
  the members of \<open>options\<close>; the model takes the selection from the input as it is.
\<close>

definition st_radio :: "ui \<Rightarrow> string \<Rightarrow> pyval \<Rightarrow> pyval action" where
  "st_radio inp label options t =
     (Inr (Str (choice inp)), t\<lparr>page := page t @ [Radio label options]\<rparr>)"

section \<open>Helper functions (lines 17 to 103)\<close>

definition get_json_response :: "prompt \<Rightarrow> string \<Rightarrow> json_object action" where
  "get_json_response system_prompt user_prompt t =
     (gateway t (length (calls t)) system_prompt user_prompt,
      t\<lparr>calls := calls t @ [(system_prompt, user_prompt)]\<rparr>)"

definition get_random_topic :: "json_object action" where
  "get_random_topic = get_json_response RandomTopic ''Come up with a random noun or phrase.''"

definition make_korean_sentence :: "string \<Rightarrow> json_object action" where
  "make_korean_sentence topic = get_json_response KoreanSentence topic"

definition english_to_korean :: "string \<Rightarrow> string action" where
  "english_to_korean english =
     py_bind (get_json_response EnglishToHangul english) (\<lambda>d. lift (getitem d ''hangul''))"

definition english_to_korean_pronunciation :: "string \<Rightarrow> json_object action" where
  "english_to_korean_pronunciation english = get_json_response EnglishToPronunciation english"

definition hangul_to_korean_pronunciation :: "string \<Rightarrow> json_object action" where
  "hangul_to_korean_pronunciation korean = get_json_response HangulToPronunciation korean"

definition create_wrong_answers :: "string \<Rightarrow> string list action" where
  "create_wrong_answers correct_answer =
     py_bind (get_json_response WrongAnswers correct_answer)
       (\<lambda>wrong_answers. ret (dict_values wrong_answers))"

text \<open>
  \<^verbatim>\<open>random.shuffle(x)\<close> is CPython's loop
  \<^verbatim>\<open>for i in reversed(range(1, len(x))): j = randbelow(i + 1); x[i], x[j] = x[j], x[i]\<close>.
  \<open>shuffle_loop rb k i x\<close> runs it from index \<open>i\<close> down to 1, taking its draws from the
  \<open>k\<close>-th on. The draw is reduced modulo its bound, so that any \<open>randbelow\<close> is a
  generator.
\<close>

fun shuffle_loop :: "(nat \<Rightarrow> nat \<Rightarrow> nat) \<Rightarrow> nat \<Rightarrow> nat \<Rightarrow> 'a list \<Rightarrow> 'a list" where
  "shuffle_loop rb k 0 x = x"
| "shuffle_loop rb k (Suc i') x =
     (let i = Suc i'; j = rb k (i + 1) mod (i + 1)
      in shuffle_loop rb (Suc k) i' (x[i := x ! j, j := x ! i]))"

definition random_shuffle :: "'a list \<Rightarrow> 'a list action" where
  "random_shuffle x t =
     (Inr (shuffle_loop (randbelow t) (draws t) (length x - 1) x),
      t\<lparr>draws := draws t + (length x - 1)\<rparr>)"

section \<open>Session set-up (lines 112 to 134)\<close>

definition init_session :: session where
  "init_session =
     \<lparr>topic_info = None, step = 0, hangul_quiz_data = [], english_quiz_data = [],
      fill_blank_data = []\<rparr>"

definition next_step :: "session \<Rightarrow> session" where
  "next_step s = s\<lparr>step := step s + 1\<rparr>"

definition reset_game :: "session \<Rightarrow> session" where
  "reset_game s =
     s\<lparr>topic_info := None, step := 0, hangul_quiz_data := [], english_quiz_data := [],
       fill_blank_data := []\<rparr>"

section \<open>The step logic (lines 140 to 311)\<close>

text \<open>
  Lines 178 to 180, the same at 222 to 224 and 267 to 269: the wrong answers, then the
  correct one, shuffled.
\<close>

definition build_answer_choices :: "string \<Rightarrow> string list action" where
  "build_answer_choices correct_answer =
     py_bind (create_wrong_answers correct_answer)
       (\<lambda>wrong_answers. random_shuffle (wrong_answers @ [correct_answer]))"

text \<open>Lines 172 to 188: the body of \<^verbatim>\<open>if not st.session_state.hangul_quiz_data\<close>.\<close>

definition generate_hangul_quiz :: "string \<Rightarrow> quiz_dict action" where
  "generate_hangul_quiz topic =
     py_bind (english_to_korean topic) (\<lambda>hangul.
     py_bind (hangul_to_korean_pronunciation hangul) (\<lambda>translation.
     py_bind (lift (getitem translation ''final_sequence'')) (\<lambda>correct_answer.
     py_bind (lift (getitem translation ''thought_process'')) (\<lambda>explanation.
     py_bind (build_answer_choices correct_answer) (\<lambda>answer_choices.
     ret [(''hangul'', Str hangul),
          (''correct_answer'', Str correct_answer),
          (''explanation'', Str explanation),
          (''answer_choices'', StrList answer_choices)])))))"

text \<open>Lines 218 to 230.\<close>

definition generate_english_quiz :: "string \<Rightarrow> quiz_dict action" where
  "generate_english_quiz topic =
     py_bind (english_to_korean_pronunciation topic) (\<lambda>translation.
     py_bind (lift (getitem translation ''final_sequence'')) (\<lambda>correct_answer.
     py_bind (lift (getitem translation ''thought_process'')) (\<lambda>explanation.
     py_bind (build_answer_choices correct_answer) (\<lambda>answer_choices.
     ret [(''correct_answer'', Str correct_answer),
          (''explanation'', Str explanation),
          (''answer_choices'', StrList answer_choices)]))))"

text \<open>Lines 258 to 276.\<close>

definition generate_fill_blank :: "string \<Rightarrow> quiz_dict action" where
  "generate_fill_blank topic =
     py_bind (make_korean_sentence topic) (\<lambda>sentence_data.
     py_bind (lift (getitem sentence_data ''subject'')) (\<lambda>subject.
     py_bind (lift (getitem sentence_data ''sentence_with_blank'')) (\<lambda>sentence_with_blank.
     py_bind (hangul_to_korean_pronunciation subject) (\<lambda>translation.
     py_bind (lift (getitem translation ''final_sequence'')) (\<lambda>correct_answer.
     py_bind (lift (getitem translation ''thought_process'')) (\<lambda>explanation.
     py_bind (build_answer_choices correct_answer) (\<lambda>answer_choices.
     ret [(''sentence_with_blank'', Str sentence_with_blank),
          (''correct_answer'', Str correct_answer),
          (''explanation'', Str explanation),
          (''answer_choices'', StrList answer_choices)])))))))"

text \<open>
  Stage entry, the generate-or-reuse part of each branch. Lines 154 and 155 for step 0;
  for the quiz steps the read of the topic and the guarded generation (lines 167 to 188,
  214 to 230, 255 to 276), which return the local variable \<^verbatim>\<open>topic\<close>.
\<close>

definition enter_topic :: "unit action" where
  "enter_topic =
     py_bind get_session (\<lambda>s.
       if topic_info s = None
       then py_bind get_random_topic (\<lambda>d. modify (\<lambda>s. s\<lparr>topic_info := Some d\<rparr>))
       else ret ())"

definition enter_hangul :: "string action" where
  "enter_hangul =
     py_bind get_session (\<lambda>s.
     py_bind (lift (subscript (topic_info s) ''topic'')) (\<lambda>topic.
     py_then
       (if hangul_quiz_data s = []
        then py_bind (generate_hangul_quiz topic) (\<lambda>q. modify (\<lambda>s. s\<lparr>hangul_quiz_data := q\<rparr>))
        else ret ())
       (ret topic)))"

definition enter_english :: "string action" where
  "enter_english =
     py_bind get_session (\<lambda>s.
     py_bind (lift (subscript (topic_info s) ''topic'')) (\<lambda>topic.
     py_then
       (if english_quiz_data s = []
        then py_bind (generate_english_quiz topic) (\<lambda>q. modify (\<lambda>s. s\<lparr>english_quiz_data := q\<rparr>))
        else ret ())
       (ret topic)))"

definition enter_fill_blank :: "string action" where
  "enter_fill_blank =
     py_bind get_session (\<lambda>s.
     py_bind (lift (subscript (topic_info s) ''topic'')) (\<lambda>topic.
     py_then
       (if fill_blank_data s = []
        then py_bind (generate_fill_blank topic) (\<lambda>q. modify (\<lambda>s. s\<lparr>fill_blank_data := q\<rparr>))
        else ret ())
       (ret topic)))"

text \<open>
  Lines 202 to 209, the same at 243 to 250 and 289 to 296 up to the label of the inner
  button, which is created with \<^verbatim>\<open>on_click=next_step\<close>.
\<close>

definition check_answer :: "ui \<Rightarrow> quiz_dict \<Rightarrow> pyval \<Rightarrow> button \<Rightarrow> unit action" where
  "check_answer inp data user_choice next_button =
     py_bind (st_button inp CheckAnswer) (\<lambda>pressed.
       if pressed
       then
         py_bind (lift (getitem data ''correct_answer'')) (\<lambda>correct_answer.
         py_then
           (if user_choice = correct_answer
            then emit (Success ''Correct!'')
            else
              py_then (emit (ErrorBox ''Wrong!''))
             (py_then
                (py_bind (lift (getitem data ''correct_answer''))
                   (\<lambda>c. emit (Write [Str ''**Correct Answer:**'', c])))
                (py_bind (lift (getitem data ''explanation''))
                   (\<lambda>e. emit (Write [Str ''**Explanation:**'', e])))))
           (py_then (st_button inp next_button) (ret ())))
       else ret ())"

text \<open>
  What each branch does after stage entry: it reads the stored data, draws the page and
  handles the buttons (lines 156 to 162, 191 to 209, 232 to 250 and 278 to 296).
\<close>

definition show_topic :: "ui \<Rightarrow> unit action" where
  "show_topic inp =
     py_bind get_session (\<lambda>s.
     py_bind (lift (subscript (topic_info s) ''topic'')) (\<lambda>topic.
     py_then (emit (Write [Str ''**Topic:**'', Str topic]))
    (py_bind (lift (subscript (topic_info s) ''tutorial'')) (\<lambda>tutorial.
     py_then (emit (Write [Str ''**Tutorial:**'', Str tutorial]))
    (py_bind (st_button inp NextHangul) (\<lambda>pressed.
       if pressed then modify next_step else ret ()))))))"

definition show_hangul :: "ui \<Rightarrow> unit action" where
  "show_hangul inp =
     py_bind get_session (\<lambda>s.
     py_then (emit (Write [Str ''What is the pronunciation of the following Korean text?'']))
    (py_bind (lift (getitem (hangul_quiz_data s) ''hangul'')) (\<lambda>hangul.
     py_then (emit (WriteBold hangul))
    (py_bind (lift (getitem (hangul_quiz_data s) ''answer_choices'')) (\<lambda>options.
     py_bind (st_radio inp ''Choose the correct answer:'' options) (\<lambda>user_choice.
     check_answer inp (hangul_quiz_data s) user_choice NextEnglish))))))"

definition show_english :: "ui \<Rightarrow> string \<Rightarrow> unit action" where
  "show_english inp topic =
     py_bind get_session (\<lambda>s.
     py_then
       (emit (Write [Str ''What is the Korean pronunciation of this English word or phrase?'']))
    (py_then (emit (WriteBold (Str topic)))
    (py_bind (lift (getitem (english_quiz_data s) ''answer_choices'')) (\<lambda>options.
     py_bind (st_radio inp ''Choose the correct answer:'' options) (\<lambda>user_choice.
     check_answer inp (english_quiz_data s) user_choice NextFillBlank)))))"

definition show_fill_blank :: "ui \<Rightarrow> unit action" where
  "show_fill_blank inp =
     py_bind get_session (\<lambda>s.
     py_then (emit (Write [Str ''Fill in the blank in this Korean sentence:'']))
    (py_bind (lift (getitem (fill_blank_data s) ''sentence_with_blank'')) (\<lambda>sentence.
     py_then (emit (WriteBold sentence))
    (py_bind (lift (getitem (fill_blank_data s) ''answer_choices'')) (\<lambda>options.
     py_bind (st_radio inp ''Which subject completes the sentence?'' options) (\<lambda>user_choice.
     check_answer inp (fill_blank_data s) user_choice NextContinue))))))"

definition step0 :: "ui \<Rightarrow> unit action" where
  "step0 inp =
     py_then (emit (Subheader ''Step 1: Generate a Random Topic''))
    (py_then enter_topic (show_topic inp))"

definition step1 :: "ui \<Rightarrow> unit action" where
  "step1 inp =
     py_then (emit (Subheader ''Step 2: Pronunciation from Hangul''))
    (py_then enter_hangul (show_hangul inp))"

definition step2 :: "ui \<Rightarrow> unit action" where
  "step2 inp =
     py_then (emit (Subheader ''Step 3: Pronunciation from English''))
    (py_bind enter_english (show_english inp))"

definition step3 :: "ui \<Rightarrow> unit action" where
  "step3 inp =
     py_then (emit (Subheader ''Step 4: Fill in the Blank''))
    (py_then enter_fill_blank (show_fill_blank inp))"

definition step4 :: "ui \<Rightarrow> unit action" where
  "step4 inp =
     py_then (emit (Subheader ''Step 5: Continue or End?''))
    (py_bind (st_button inp NewTopic) (\<lambda>new_topic.
     py_then (if new_topic then modify reset_game else ret ())
    (py_bind (st_button inp EndGame) (\<lambda>end_game.
       if end_game
       then
         py_then (emit (Write [Str ''---'']))
        (py_then (emit (Write [Str ''# Thanks for playing!'']))
        (raise StopException))
       else ret ()))))"

definition run_game_step :: "ui \<Rightarrow> unit action" where
  "run_game_step inp =
     py_bind get_session (\<lambda>s.
       if step s = 0 then step0 inp
       else if step s = 1 then step1 inp
       else if step s = 2 then step2 inp
       else if step s = 3 then step3 inp
       else if step s = 4 then step4 inp
       else ret ())"

text \<open>
  Stage entry for the current step, as \<open>run_game_step\<close> performs it inside the branch it
  takes; step 4 and any other step generate nothing.
\<close>

definition enter_stage :: "unit action" where
  "enter_stage =
     py_bind get_session (\<lambda>s.
       if step s = 0 then enter_topic
       else if step s = 1 then py_then enter_hangul (ret ())
       else if step s = 2 then py_then enter_english (ret ())
       else if step s = 3 then py_then enter_fill_blank (ret ())
       else ret ())"

text \<open>The quiz dictionary that belongs to a step.\<close>

definition stage_memo :: "session \<Rightarrow> int \<Rightarrow> quiz_dict" where
  "stage_memo s n =
     (if n = 1 then hangul_quiz_data s
      else if n = 2 then english_quiz_data s
      else if n = 3 then fill_blank_data s
      else [])"

text \<open>The reply the service gave to the most recent call in the log.\<close>

definition last_reply :: "state \<Rightarrow> py_error + json_object" where
  "last_reply t =
     (case last (calls t) of (p, u) \<Rightarrow> gateway t (length (calls t) - 1) p u)"

text \<open>The generation a quiz step runs when its dictionary is empty.\<close>

definition provider :: "int \<Rightarrow> string \<Rightarrow> quiz_dict action" where
  "provider n =
     (if n = 1 then generate_hangul_quiz
      else if n = 2 then generate_english_quiz
      else generate_fill_blank)"

text \<open>Everything of a state but the page.\<close>

definition core :: "state \<Rightarrow> state" where
  "core t = t\<lparr>page := []\<rparr>"

section \<open>One user interaction\<close>

text \<open>
  Streamlit handles an interaction in two moves. If the clicked button was created with
  an \<^verbatim>\<open>on_click\<close> callback, the callback runs first; then the script runs from the top on
  an empty page, to its end. Neither Streamlit nor the script asks whether the page still
  holds the button: a click that is delivered twice runs the callback twice. A button
  without a callback acts only through the \<^verbatim>\<open>st.button\<close> call that draws it, so a
  click on one that the run does not draw has no effect beyond the run itself. An input
  without a click is any other cause of a run (the first load, a change of the radio
  selection). When a run raises, what it stored and drew before the exception stays. The
  title and the defaults of \<^verbatim>\<open>st.session_state\<close> that the script sets before
  \<^verbatim>\<open>run_game_step\<close> are the session \<open>init_session\<close> of a \<open>fresh\<close> state; the title is
  not part of the page here.
\<close>

definition on_click :: "button \<Rightarrow> bool" where
  "on_click b = (b = NextEnglish \<or> b = NextFillBlank \<or> b = NextContinue)"

definition rerun :: "ui \<Rightarrow> state \<Rightarrow> state" where
  "rerun inp t = snd (run_game_step inp (t\<lparr>page := []\<rparr>))"

definition interact :: "ui \<Rightarrow> state \<Rightarrow> state" where
  "interact inp t =
     (case clicked inp of
        None \<Rightarrow> rerun inp t
      | Some b \<Rightarrow> rerun inp (if on_click b then snd (modify next_step t) else t))"

definition interactions :: "ui list \<Rightarrow> state \<Rightarrow> state" where
  "interactions inps t = foldl (\<lambda>t inp. interact inp t) t inps"

text \<open>The state of a new session, before the first run of the script.\<close>

definition fresh :: "(nat \<Rightarrow> prompt \<Rightarrow> string \<Rightarrow> py_error + json_object) \<Rightarrow> (nat \<Rightarrow> nat \<Rightarrow> nat) \<Rightarrow> state" where
  "fresh gw rb =
     \<lparr>session_state = init_session, gateway = gw, calls = [], randbelow = rb, draws = 0,
      page = []\<rparr>"

section \<open>Reading a quiz dictionary, and scripted services\<close>

text \<open>
  \<open>answer_set q c cs\<close>: the dictionary \<open>q\<close> holds the correct answer \<open>c\<close> and the
  answer choices \<open>cs\<close>.
\<close>

definition answer_set :: "quiz_dict \<Rightarrow> string \<Rightarrow> string list \<Rightarrow> bool" where
  "answer_set q c cs =
     (getitem q ''correct_answer'' = Inr (Str c) \<and> getitem q ''answer_choices'' = Inr (StrList cs))"

text \<open>
  A service that answers by prompt alone: the replies to the topic, pronunciation and
  wrong-answer prompts are given, the other two are fixed. \<open>scenario_gateway\<close> answers
  as in the scenario of the specification: topic apple, correct answer ap-eul.
\<close>

definition gateway_with :: "json_object \<Rightarrow> json_object \<Rightarrow> json_object \<Rightarrow> nat \<Rightarrow> prompt \<Rightarrow> string \<Rightarrow> py_error + json_object" where
  "gateway_with topic_reply pronunciation_reply wrong_reply n p u =
     (case p of
        RandomTopic \<Rightarrow> Inr topic_reply
      | KoreanSentence \<Rightarrow> Inr [(''subject'', ''sagwa''), (''sentence_with_blank'', ''___ is red'')]
      | EnglishToHangul \<Rightarrow> Inr [(''hangul'', ''sagwa'')]
      | EnglishToPronunciation \<Rightarrow> Inr pronunciation_reply
      | HangulToPronunciation \<Rightarrow> Inr pronunciation_reply
      | WrongAnswers \<Rightarrow> Inr wrong_reply)"

definition scenario_gateway :: "nat \<Rightarrow> prompt \<Rightarrow> string \<Rightarrow> py_error + json_object" where
  "scenario_gateway =
     gateway_with [(''topic'', ''apple''), (''tutorial'', ''sagwa'')]
       [(''thought_process'', ''sa-gwa''), (''final_sequence'', ''ap-eul'')]
       [(''mutation_1'', ''a-peul''), (''mutation_2'', ''ap-eu''), (''mutation_3'', ''a-pool'')]"

text \<open>A generator whose every draw is 0.\<close>

definition first_slot :: "nat \<Rightarrow> nat \<Rightarrow> nat" where
  "first_slot k n = 0"

definition no_click :: ui where
  "no_click = \<lparr>clicked = None, choice = ''''\<rparr>"

text \<open>A service whose wrong-answer reply has two entries, with the same value.\<close>

definition duplicated_wrong_gateway :: "nat \<Rightarrow> prompt \<Rightarrow> string \<Rightarrow> py_error + json_object" where
  "duplicated_wrong_gateway =
     gateway_with [(''topic'', ''apple''), (''tutorial'', ''sagwa'')]
       [(''thought_process'', ''sa-gwa''), (''final_sequence'', ''ap-eul'')]
       [(''mutation_1'', ''a-peul''), (''mutation_2'', ''a-peul'')]"

text \<open>
  A session at step \<open>n\<close> whose topic is apple, with empty quiz dictionaries, no call
  made yet, the generator \<open>first_slot\<close> and the service \<open>gw\<close>.
\<close>

definition at_step :: "int \<Rightarrow> (nat \<Rightarrow> prompt \<Rightarrow> string \<Rightarrow> py_error + json_object) \<Rightarrow> state" where
  "at_step n gw =
     (fresh gw first_slot)
       \<lparr>session_state :=
          init_session\<lparr>topic_info := Some [(''topic'', ''apple''), (''tutorial'', ''sagwa'')],
                       step := n\<rparr>\<rparr>"

text \<open>The click on \<^verbatim>\<open>Check Answer\<close> with the option \<open>c\<close> selected.\<close>

definition check_click :: "string \<Rightarrow> ui" where
  "check_click c = \<lparr>clicked = Some CheckAnswer, choice = c\<rparr>"

text \<open>
  A state in which the buttons keep the step in range: the step is between 0 and 4, and
  at step 4 the page holds none of the three buttons that call \<open>next_step\<close>.
\<close>

definition wired :: "state \<Rightarrow> bool" where
  "wired t =
     (0 \<le> step (session_state t) \<and> step (session_state t) \<le> 4
      \<and> (step (session_state t) \<le> 3
         \<or> (Button NextEnglish \<notin> set (page t) \<and> Button NextFillBlank \<notin> set (page t)
            \<and> Button NextContinue \<notin> set (page t))))"

text \<open>
  A whole game in the scenario, from the first load of the page to step 4: the clicks on
  the buttons, with the option selected at each.
\<close>

definition full_game :: "ui list" where
  "full_game =
     [no_click, \<lparr>clicked = Some NextHangul, choice = ''''\<rparr>, no_click,
      check_click ''ap-eul'', \<lparr>clicked = Some NextEnglish, choice = ''ap-eul''\<rparr>,
      check_click ''ap-eu'', \<lparr>clicked = Some NextFillBlank, choice = ''ap-eu''\<rparr>,
      check_click ''ap-eul'', \<lparr>clicked = Some NextContinue, choice = ''ap-eul''\<rparr>]"

text \<open>
  The click on \<^verbatim>\<open>Next: Continue or End\<close>, as the last interaction of \<open>full_game\<close>
  has it.
\<close>

definition continue_click :: ui where
  "continue_click = \<lparr>clicked = Some NextContinue, choice = ''ap-eul''\<rparr>"

text \<open>The clicks on \<^verbatim>\<open>End Game\<close> and on \<^verbatim>\<open>New Topic!\<close>.\<close>

definition end_click :: ui where
  "end_click = \<lparr>clicked = Some EndGame, choice = ''''\<rparr>"

definition new_topic_click :: ui where
  "new_topic_click = \<lparr>clicked = Some NewTopic, choice = ''''\<rparr>"

text \<open>A service whose pronunciation reply lacks \<^verbatim>\<open>final_sequence\<close>.\<close>

definition no_final_sequence_gateway :: "nat \<Rightarrow> prompt \<Rightarrow> string \<Rightarrow> py_error + json_object" where
  "no_final_sequence_gateway =
     gateway_with [(''topic'', ''apple''), (''tutorial'', ''sagwa'')]
       [(''thought_process'', ''sa-gwa'')]
       [(''mutation_1'', ''a-peul''), (''mutation_2'', ''ap-eu''), (''mutation_3'', ''a-pool'')]"

text \<open>A service whose topic reply lacks \<^verbatim>\<open>topic\<close>.\<close>

definition no_topic_gateway :: "nat \<Rightarrow> prompt \<Rightarrow> string \<Rightarrow> py_error + json_object" where
  "no_topic_gateway =
     gateway_with [(''tutorial'', ''sagwa'')]
       [(''thought_process'', ''sa-gwa''), (''final_sequence'', ''ap-eul'')]
       [(''mutation_1'', ''a-peul''), (''mutation_2'', ''ap-eu''), (''mutation_3'', ''a-pool'')]"

section \<open>The shuffle permutes, and what stage entry does\<close>

lemmas act = py_bind_def py_then_def ret_def lift_def raise_def get_session_def modify_def emit_def
  st_button_def st_radio_def get_json_response_def

lemma mset_shuffle_loop:
  "i < length x \<Longrightarrow> mset (shuffle_loop rb k i x) = mset x"
proof (induction i arbitrary: k x)
  case 0
  then show ?case by simp
next
  case (Suc i)
  define j where "j = rb k (Suc i + 1) mod (Suc i + 1)"
  define y where "y = x[Suc i := x ! j, j := x ! Suc i]"
  have "j < Suc i + 1" unfolding j_def by simp
  hence j: "j < length x" using Suc.prems by simp
  have len: "length y = length x" by (simp add: y_def)
  have "mset y = mset x"
    unfolding y_def using Suc.prems j by (simp add: mset_swap)
  moreover have "mset (shuffle_loop rb (Suc k) i y) = mset y"
    using Suc.IH [of y "Suc k"] Suc.prems len by simp
  moreover have "shuffle_loop rb k (Suc i) x = shuffle_loop rb (Suc k) i y"
    by (simp add: y_def j_def Let_def)
  ultimately show ?case by simp
qed

lemma mset_random_shuffle:
  "random_shuffle x t = (r, t') \<Longrightarrow> \<exists>y. r = Inr y \<and> mset y = mset x \<and> t' = t\<lparr>draws := draws t + (length x - 1)\<rparr>"
proof (cases x)
  case Nil
  assume "random_shuffle x t = (r, t')"
  with Nil show ?thesis by (auto simp: random_shuffle_def)
next
  case (Cons a l)
  assume "random_shuffle x t = (r, t')"
  with Cons show ?thesis
    using mset_shuffle_loop [of "length x - 1" x "randbelow t" "draws t"]
    by (auto simp: random_shuffle_def)
qed

lemma build_answer_choices_Inr:
  assumes "build_answer_choices c t = (Inr cs, t')"
  shows "\<exists>d. gateway t (length (calls t)) WrongAnswers c = Inr d
            \<and> mset cs = mset (dict_values d) + {#c#}
            \<and> t' = t\<lparr>calls := calls t @ [(WrongAnswers, c)], draws := draws t + length d\<rparr>"
proof (cases "gateway t (length (calls t)) WrongAnswers c")
  case (Inl e)
  with assms show ?thesis
    by (simp add: build_answer_choices_def create_wrong_answers_def act)
next
  case (Inr d)
  with assms show ?thesis
    using mset_random_shuffle [of "dict_values d @ [c]"
        "t\<lparr>calls := calls t @ [(WrongAnswers, c)]\<rparr>" "Inr cs" t']
    by (auto simp: build_answer_choices_def create_wrong_answers_def act dict_values_def)
qed

lemma build_answer_choices_Inl:
  assumes "build_answer_choices c t = (Inl e, t')"
  shows "gateway t (length (calls t)) WrongAnswers c = Inl e
       \<and> t' = t\<lparr>calls := calls t @ [(WrongAnswers, c)]\<rparr>"
proof (cases "gateway t (length (calls t)) WrongAnswers c")
  case (Inl e')
  with assms show ?thesis
    by (simp add: build_answer_choices_def create_wrong_answers_def act)
next
  case (Inr d)
  with assms show ?thesis
    by (simp add: build_answer_choices_def create_wrong_answers_def act random_shuffle_def)
qed

lemma build_answer_choices_session:
  "session_state (snd (build_answer_choices c t)) = session_state t"
  by (cases "build_answer_choices c t"; cases "fst (build_answer_choices c t)")
     (auto dest: build_answer_choices_Inr build_answer_choices_Inl)

lemma last_reply_after_call:
  "last_reply (t\<lparr>calls := calls t @ [(p, u)], draws := n\<rparr>) = gateway t (length (calls t)) p u"
  by (simp add: last_reply_def)

lemma generate_hangul_quiz_Inr:
  assumes "generate_hangul_quiz topic t = (Inr q, t')"
  shows "\<exists>c cs d. answer_set q c cs \<and> q \<noteq> [] \<and> last_reply t' = Inr d
           \<and> mset cs = mset (dict_values d) + {#c#}
           \<and> session_state t' = session_state t \<and> gateway t' = gateway t \<and> page t' = page t"
  using assms
  apply (simp add: generate_hangul_quiz_def english_to_korean_def hangul_to_korean_pronunciation_def act
       split: prod.splits sum.splits)
  apply (auto dest!: build_answer_choices_Inr simp: answer_set_def getitem_def last_reply_def)
  done

lemma generate_english_quiz_Inr:
  assumes "generate_english_quiz topic t = (Inr q, t')"
  shows "\<exists>c cs d. answer_set q c cs \<and> q \<noteq> [] \<and> last_reply t' = Inr d
           \<and> mset cs = mset (dict_values d) + {#c#}
           \<and> session_state t' = session_state t \<and> gateway t' = gateway t \<and> page t' = page t"
  using assms
  apply (simp add: generate_english_quiz_def english_to_korean_pronunciation_def act
       split: prod.splits sum.splits)
  apply (auto dest!: build_answer_choices_Inr simp: answer_set_def getitem_def last_reply_def)
  done

lemma generate_fill_blank_Inr:
  assumes "generate_fill_blank topic t = (Inr q, t')"
  shows "\<exists>c cs d. answer_set q c cs \<and> q \<noteq> [] \<and> last_reply t' = Inr d
           \<and> mset cs = mset (dict_values d) + {#c#}
           \<and> session_state t' = session_state t \<and> gateway t' = gateway t \<and> page t' = page t"
  using assms
  apply (simp add: generate_fill_blank_def make_korean_sentence_def hangul_to_korean_pronunciation_def act
       split: prod.splits sum.splits)
  apply (auto dest!: build_answer_choices_Inr simp: answer_set_def getitem_def last_reply_def)
  done

lemma py_bind_session:
  assumes "\<And>t. session_state (snd (m t)) = session_state t"
      and "\<And>x t. session_state (snd (f x t)) = session_state t"
  shows "session_state (snd (py_bind m f t)) = session_state t"
proof (cases "m t")
  case (Pair r t')
  then have "session_state t' = session_state t" using assms(1) [of t] by simp
  with Pair show ?thesis using assms(2) by (cases r) (simp_all add: py_bind_def)
qed

lemma get_json_response_session:
  "session_state (snd (get_json_response p u t)) = session_state t"
  by (simp add: get_json_response_def)

lemma lift_session: "session_state (snd (lift r t)) = session_state t"
  by (simp add: lift_def)

lemma ret_session: "session_state (snd (ret x t)) = session_state t"
  by (simp add: ret_def)

lemmas frame = py_bind_session get_json_response_session lift_session ret_session
  build_answer_choices_session

lemma generate_hangul_quiz_session:
  "session_state (snd (generate_hangul_quiz topic t)) = session_state t"
  unfolding generate_hangul_quiz_def english_to_korean_def hangul_to_korean_pronunciation_def
  by (intro frame)

lemma generate_english_quiz_session:
  "session_state (snd (generate_english_quiz topic t)) = session_state t"
  unfolding generate_english_quiz_def english_to_korean_pronunciation_def
  by (intro frame)

lemma generate_fill_blank_session:
  "session_state (snd (generate_fill_blank topic t)) = session_state t"
  unfolding generate_fill_blank_def make_korean_sentence_def hangul_to_korean_pronunciation_def
  by (intro frame)

lemma enter_topic_eq:
  "enter_topic t =
     (if topic_info (session_state t) = None
      then (case gateway t (length (calls t)) RandomTopic ''Come up with a random noun or phrase.'' of
              Inl e \<Rightarrow> (Inl e, t\<lparr>calls := calls t @ [(RandomTopic, ''Come up with a random noun or phrase.'')]\<rparr>)
            | Inr d \<Rightarrow> (Inr (), t\<lparr>calls := calls t @ [(RandomTopic, ''Come up with a random noun or phrase.'')],
                              session_state := (session_state t)\<lparr>topic_info := Some d\<rparr>\<rparr>))
      else (Inr (), t))"
  by (simp add: enter_topic_def get_random_topic_def act split: sum.splits)

lemma enter_hangul_eq:
  "enter_hangul t =
     (case subscript (topic_info (session_state t)) ''topic'' of
        Inl e \<Rightarrow> (Inl e, t)
      | Inr topic \<Rightarrow>
          if hangul_quiz_data (session_state t) = []
          then (case generate_hangul_quiz topic t of
                  (Inl e, t') \<Rightarrow> (Inl e, t')
                | (Inr q, t') \<Rightarrow>
                    (Inr topic, t'\<lparr>session_state := (session_state t')\<lparr>hangul_quiz_data := q\<rparr>\<rparr>))
          else (Inr topic, t))"
  by (simp add: enter_hangul_def act split: sum.splits prod.splits)

lemma enter_english_eq:
  "enter_english t =
     (case subscript (topic_info (session_state t)) ''topic'' of
        Inl e \<Rightarrow> (Inl e, t)
      | Inr topic \<Rightarrow>
          if english_quiz_data (session_state t) = []
          then (case generate_english_quiz topic t of
                  (Inl e, t') \<Rightarrow> (Inl e, t')
                | (Inr q, t') \<Rightarrow>
                    (Inr topic, t'\<lparr>session_state := (session_state t')\<lparr>english_quiz_data := q\<rparr>\<rparr>))
          else (Inr topic, t))"
  by (simp add: enter_english_def act split: sum.splits prod.splits)

lemma enter_fill_blank_eq:
  "enter_fill_blank t =
     (case subscript (topic_info (session_state t)) ''topic'' of
        Inl e \<Rightarrow> (Inl e, t)
      | Inr topic \<Rightarrow>
          if fill_blank_data (session_state t) = []
          then (case generate_fill_blank topic t of
                  (Inl e, t') \<Rightarrow> (Inl e, t')
                | (Inr q, t') \<Rightarrow>
                    (Inr topic, t'\<lparr>session_state := (session_state t')\<lparr>fill_blank_data := q\<rparr>\<rparr>))
          else (Inr topic, t))"
  by (simp add: enter_fill_blank_def act split: sum.splits prod.splits)

section \<open>Reset\<close>

text \<open>
  C7. \<open>reset_game\<close> sets the step to 0 and empties \<open>topic_info\<close> and the three quiz
  dictionaries: the session is the initial one again. Stage entry right after a reset
  calls the service with the topic prompt, and the topic stored is the reply to that call,
  never one from before the reset.
\<close>

theorem reset_game_clears_and_topic_is_asked_again:
  "reset_game s = init_session
   \<and> step (reset_game s) = 0 \<and> topic_info (reset_game s) = None
   \<and> stage_memo (reset_game s) n = []
   \<and> calls (snd (enter_stage (t\<lparr>session_state := reset_game s\<rparr>)))
       = calls t @ [(RandomTopic, ''Come up with a random noun or phrase.'')]
   \<and> topic_info (session_state (snd (enter_stage (t\<lparr>session_state := reset_game s\<rparr>))))
       = (case gateway t (length (calls t)) RandomTopic ''Come up with a random noun or phrase.'' of
            Inl e \<Rightarrow> None | Inr d \<Rightarrow> Some d)"
  by (simp add: reset_game_def init_session_def stage_memo_def enter_stage_def enter_topic_eq
        py_bind_def get_session_def split: sum.splits)

section \<open>The wrong answers\<close>

text \<open>
  C4, as the code has it. \<open>create_wrong_answers\<close> fails only when the call to the service
  fails. Otherwise it returns the values of the reply as they are, however many they are
  and whether or not they are distinct, and the answer choices built from them are those
  values and the correct answer, in some order: nothing is added, nothing is dropped, and
  nothing is rejected.
\<close>

theorem wrong_answers_are_passed_through:
  "case gateway t (length (calls t)) WrongAnswers c of
     Inl e \<Rightarrow> fst (create_wrong_answers c t) = Inl e \<and> fst (build_answer_choices c t) = Inl e
   | Inr d \<Rightarrow> fst (create_wrong_answers c t) = Inr (dict_values d)
            \<and> (\<exists>cs. fst (build_answer_choices c t) = Inr cs
                   \<and> mset cs = mset (dict_values d) + {#c#})"
proof (cases "gateway t (length (calls t)) WrongAnswers c")
  case (Inl e)
  then show ?thesis
    by (simp add: create_wrong_answers_def build_answer_choices_def act)
next
  case (Inr d)
  obtain r t' where b: "build_answer_choices c t = (r, t')"
    by (cases "build_answer_choices c t")
  have "\<exists>cs. r = Inr cs"
    using b Inr by (cases r) (auto dest: build_answer_choices_Inl)
  then obtain cs where r: "r = Inr cs" by blast
  with b have "mset cs = mset (dict_values d) + {#c#}"
    using build_answer_choices_Inr [of c t cs t'] Inr by auto
  with Inr b r show ?thesis
    by (simp add: create_wrong_answers_def act)
qed

text \<open>
  The service returns two wrong answers, both \<open>a-peul\<close>: one distinct value. The call
  succeeds and three answer choices are built.
\<close>

theorem few_wrong_answers_counterexample:
  "fst (create_wrong_answers ''ap-eul'' (fresh duplicated_wrong_gateway first_slot))
     = Inr [''a-peul'', ''a-peul'']
   \<and> fst (build_answer_choices ''ap-eul'' (fresh duplicated_wrong_gateway first_slot))
     = Inr [''a-peul'', ''ap-eul'', ''a-peul'']"
  by (simp add: create_wrong_answers_def build_answer_choices_def act fresh_def
        duplicated_wrong_gateway_def gateway_with_def dict_values_def random_shuffle_def
        first_slot_def)

lemma last_reply_session [simp]:
  "last_reply (t\<lparr>session_state := s\<rparr>) = last_reply t"
  by (simp add: last_reply_def)

lemma enter_hangul_generated:
  assumes "enter_hangul t = (Inr topic, t')" and "hangul_quiz_data (session_state t) = []"
  shows "\<exists>q c cs d. generate_hangul_quiz topic t = (Inr q, t'\<lparr>session_state := session_state t\<rparr>)
           \<and> subscript (topic_info (session_state t)) ''topic'' = Inr topic
           \<and> session_state t' = (session_state t)\<lparr>hangul_quiz_data := q\<rparr>
           \<and> answer_set q c cs \<and> q \<noteq> [] \<and> last_reply t' = Inr d
           \<and> mset cs = mset (dict_values d) + {#c#}"
  using assms
  apply (simp add: enter_hangul_eq split: sum.splits prod.splits)
  apply (frule generate_hangul_quiz_Inr)
  apply auto
  apply blast
  done

lemma enter_english_generated:
  assumes "enter_english t = (Inr topic, t')" and "english_quiz_data (session_state t) = []"
  shows "\<exists>q c cs d. generate_english_quiz topic t = (Inr q, t'\<lparr>session_state := session_state t\<rparr>)
           \<and> subscript (topic_info (session_state t)) ''topic'' = Inr topic
           \<and> session_state t' = (session_state t)\<lparr>english_quiz_data := q\<rparr>
           \<and> answer_set q c cs \<and> q \<noteq> [] \<and> last_reply t' = Inr d
           \<and> mset cs = mset (dict_values d) + {#c#}"
  using assms
  apply (simp add: enter_english_eq split: sum.splits prod.splits)
  apply (frule generate_english_quiz_Inr)
  apply auto
  apply blast
  done

lemma enter_fill_blank_generated:
  assumes "enter_fill_blank t = (Inr topic, t')" and "fill_blank_data (session_state t) = []"
  shows "\<exists>q c cs d. generate_fill_blank topic t = (Inr q, t'\<lparr>session_state := session_state t\<rparr>)
           \<and> subscript (topic_info (session_state t)) ''topic'' = Inr topic
           \<and> session_state t' = (session_state t)\<lparr>fill_blank_data := q\<rparr>
           \<and> answer_set q c cs \<and> q \<noteq> [] \<and> last_reply t' = Inr d
           \<and> mset cs = mset (dict_values d) + {#c#}"
  using assms
  apply (simp add: enter_fill_blank_eq split: sum.splits prod.splits)
  apply (frule generate_fill_blank_Inr)
  apply auto
  apply blast
  done

lemma enter_stage_generated:
  assumes ok: "fst (enter_stage t) = Inr ()"
      and st: "step (session_state t) \<in> {1, 2, 3}"
      and empty: "stage_memo (session_state t) (step (session_state t)) = []"
  shows "\<exists>topic q c cs d.
           subscript (topic_info (session_state t)) ''topic'' = Inr topic
         \<and> fst (provider (step (session_state t)) topic t) = Inr q
         \<and> session_state (snd (enter_stage t))
             = (if step (session_state t) = 1 then (session_state t)\<lparr>hangul_quiz_data := q\<rparr>
                else if step (session_state t) = 2 then (session_state t)\<lparr>english_quiz_data := q\<rparr>
                else (session_state t)\<lparr>fill_blank_data := q\<rparr>)
         \<and> answer_set q c cs \<and> q \<noteq> [] \<and> last_reply (snd (enter_stage t)) = Inr d
         \<and> mset cs = mset (dict_values d) + {#c#}"
proof -
  consider "step (session_state t) = 1" | "step (session_state t) = 2" | "step (session_state t) = 3"
    using st by auto
  then show ?thesis
  proof cases
    case 1
    obtain r t' where e: "enter_hangul t = (r, t')" by (cases "enter_hangul t")
    with ok 1 obtain topic where r: "r = Inr topic"
      by (cases r) (auto simp: enter_stage_def act)
    have e': "snd (enter_stage t) = t'"
      using e r 1 by (simp add: enter_stage_def act)
    from enter_hangul_generated [of t topic t'] e r empty 1
    show ?thesis unfolding e' by (fastforce simp: stage_memo_def provider_def)
  next
    case 2
    obtain r t' where e: "enter_english t = (r, t')" by (cases "enter_english t")
    with ok 2 obtain topic where r: "r = Inr topic"
      by (cases r) (auto simp: enter_stage_def act)
    have e': "snd (enter_stage t) = t'"
      using e r 2 by (simp add: enter_stage_def act)
    from enter_english_generated [of t topic t'] e r empty 2
    show ?thesis unfolding e' by (fastforce simp: stage_memo_def provider_def)
  next
    case 3
    obtain r t' where e: "enter_fill_blank t = (r, t')" by (cases "enter_fill_blank t")
    with ok 3 obtain topic where r: "r = Inr topic"
      by (cases r) (auto simp: enter_stage_def act)
    have e': "snd (enter_stage t) = t'"
      using e r 3 by (simp add: enter_stage_def act)
    from enter_fill_blank_generated [of t topic t'] e r empty 3
    show ?thesis unfolding e' by (fastforce simp: stage_memo_def provider_def)
  qed
qed

lemma enter_hangul_again:
  assumes "enter_hangul t = (Inr topic, t')" and "session_state u = session_state t'"
  shows "enter_hangul u = (Inr topic, u)"
proof (cases "hangul_quiz_data (session_state t) = []")
  case True
  from enter_hangul_generated [OF assms(1) True] assms(2) show ?thesis
    by (auto simp: enter_hangul_eq)
next
  case False
  with assms show ?thesis
    by (auto simp: enter_hangul_eq split: sum.splits)
qed

lemma enter_english_again:
  assumes "enter_english t = (Inr topic, t')" and "session_state u = session_state t'"
  shows "enter_english u = (Inr topic, u)"
proof (cases "english_quiz_data (session_state t) = []")
  case True
  from enter_english_generated [OF assms(1) True] assms(2) show ?thesis
    by (auto simp: enter_english_eq)
next
  case False
  with assms show ?thesis
    by (auto simp: enter_english_eq split: sum.splits)
qed

lemma enter_fill_blank_again:
  assumes "enter_fill_blank t = (Inr topic, t')" and "session_state u = session_state t'"
  shows "enter_fill_blank u = (Inr topic, u)"
proof (cases "fill_blank_data (session_state t) = []")
  case True
  from enter_fill_blank_generated [OF assms(1) True] assms(2) show ?thesis
    by (auto simp: enter_fill_blank_eq)
next
  case False
  with assms show ?thesis
    by (auto simp: enter_fill_blank_eq split: sum.splits)
qed

lemma enter_topic_again:
  assumes "enter_topic t = (Inr (), t')" and "session_state u = session_state t'"
  shows "enter_topic u = (Inr (), u)"
  using assms by (auto simp: enter_topic_eq split: if_splits sum.splits)

lemma enter_quiz_step:
  "step (session_state t') = step (session_state t)"
  if "enter_hangul t = (r, t') \<or> enter_english t = (r, t') \<or> enter_fill_blank t = (r, t') "
  using that generate_hangul_quiz_session [of _ t] generate_english_quiz_session [of _ t]
    generate_fill_blank_session [of _ t]
  by (auto simp: enter_hangul_eq enter_english_eq enter_fill_blank_eq
      split: sum.splits if_splits prod.splits) (metis snd_conv)+

lemma enter_stage_again:
  assumes ok: "fst (enter_stage t) = Inr ()"
      and same: "session_state u = session_state (snd (enter_stage t))"
  shows "enter_stage u = (Inr (), u)"
proof -
  consider "step (session_state t) = 0" | "step (session_state t) = 1"
    | "step (session_state t) = 2" | "step (session_state t) = 3"
    | "step (session_state t) \<notin> {0, 1, 2, 3}"
    by auto
  then show ?thesis
  proof cases
    case 1
    obtain r t' where e: "enter_topic t = (r, t')" by (cases "enter_topic t")
    with ok 1 have r: "r = Inr ()" by (simp add: enter_stage_def act)
    have e': "snd (enter_stage t) = t'" using e 1 by (simp add: enter_stage_def act)
    have "step (session_state t') = 0"
      using e 1 by (auto simp: enter_topic_eq split: if_splits sum.splits)
    with enter_topic_again [of t t' u] e r same e' show ?thesis
      by (simp add: enter_stage_def act)
  next
    case 2
    obtain r t' where e: "enter_hangul t = (r, t')" by (cases "enter_hangul t")
    with ok 2 obtain topic where r: "r = Inr topic"
      by (cases r) (auto simp: enter_stage_def act)
    have e': "snd (enter_stage t) = t'" using e r 2 by (simp add: enter_stage_def act)
    have "step (session_state t') = 1" using enter_quiz_step [of t r t'] e 2 by simp
    with enter_hangul_again [of t topic t' u] e r same e' show ?thesis
      by (simp add: enter_stage_def act)
  next
    case 3
    obtain r t' where e: "enter_english t = (r, t')" by (cases "enter_english t")
    with ok 3 obtain topic where r: "r = Inr topic"
      by (cases r) (auto simp: enter_stage_def act)
    have e': "snd (enter_stage t) = t'" using e r 3 by (simp add: enter_stage_def act)
    have "step (session_state t') = 2" using enter_quiz_step [of t r t'] e 3 by simp
    with enter_english_again [of t topic t' u] e r same e' show ?thesis
      by (simp add: enter_stage_def act)
  next
    case 4
    obtain r t' where e: "enter_fill_blank t = (r, t')" by (cases "enter_fill_blank t")
    with ok 4 obtain topic where r: "r = Inr topic"
      by (cases r) (auto simp: enter_stage_def act)
    have e': "snd (enter_stage t) = t'" using e r 4 by (simp add: enter_stage_def act)
    have "step (session_state t') = 3" using enter_quiz_step [of t r t'] e 4 by simp
    with enter_fill_blank_again [of t topic t' u] e r same e' show ?thesis
      by (simp add: enter_stage_def act)
  next
    case 5
    then have "snd (enter_stage t) = t" by (simp add: enter_stage_def act)
    with 5 same show ?thesis by (simp add: enter_stage_def act)
  qed
qed

lemmas script =
  run_game_step_def step0_def step1_def step2_def step3_def step4_def
  show_topic_def show_hangul_def show_english_def show_fill_blank_def check_answer_def
  enter_stage_def enter_topic_def enter_hangul_def enter_english_def enter_fill_blank_def
  generate_hangul_quiz_def generate_english_quiz_def generate_fill_blank_def
  build_answer_choices_def create_wrong_answers_def random_shuffle_def
  get_random_topic_def make_korean_sentence_def english_to_korean_def
  english_to_korean_pronunciation_def hangul_to_korean_pronunciation_def
  act getitem_def subscript_def dict_values_def
  next_step_def reset_game_def init_session_def stage_memo_def last_reply_def answer_set_def

lemmas scenario = fresh_def at_step_def gateway_with_def scenario_gateway_def first_slot_def

lemma hangul_entry_runs:
  "enter_stage (at_step 1 scenario_gateway)
     = (Inr (),
        (at_step 1 scenario_gateway)
          \<lparr>session_state := (session_state (at_step 1 scenario_gateway))
             \<lparr>hangul_quiz_data :=
                [(''hangul'', Str ''sagwa''), (''correct_answer'', Str ''ap-eul''),
                 (''explanation'', Str ''sa-gwa''),
                 (''answer_choices'', StrList [''ap-eu'', ''a-pool'', ''ap-eul'', ''a-peul''])]\<rparr>,
           calls := [(EnglishToHangul, ''apple''), (HangulToPronunciation, ''sagwa''),
                     (WrongAnswers, ''ap-eul'')],
           draws := 3\<rparr>)"
  by (simp add: script scenario)

section \<open>The answer choices of a generated stage\<close>

text \<open>
  C10. When a quiz step (1, 2 or 3) with an empty dictionary is entered and the entry
  succeeds, the dictionary stored for the step holds a correct answer \<open>c\<close> and answer
  choices \<open>cs\<close> such that \<open>c\<close> is among \<open>cs\<close> and \<open>cs\<close> has one element more than the
  reply to the wrong-answers call (the last call made) has values, whatever that number
  is and whether or not a wrong answer equals the correct one.
\<close>

theorem generated_choices_hold_the_correct_answer:
  assumes "fst (enter_stage t) = Inr ()"
      and "step (session_state t) \<in> {1, 2, 3}"
      and "stage_memo (session_state t) (step (session_state t)) = []"
  shows "\<exists>c cs d.
           answer_set (stage_memo (session_state (snd (enter_stage t))) (step (session_state t))) c cs
         \<and> last_reply (snd (enter_stage t)) = Inr d
         \<and> c \<in> set cs
         \<and> length cs = length (dict_values d) + 1"
proof -
  from enter_stage_generated [OF assms] obtain topic q c cs d where
    s': "session_state (snd (enter_stage t))
             = (if step (session_state t) = 1 then (session_state t)\<lparr>hangul_quiz_data := q\<rparr>
                else if step (session_state t) = 2 then (session_state t)\<lparr>english_quiz_data := q\<rparr>
                else (session_state t)\<lparr>fill_blank_data := q\<rparr>)"
    and q: "answer_set q c cs" and d: "last_reply (snd (enter_stage t)) = Inr d"
    and m: "mset cs = mset (dict_values d) + {#c#}"
    by blast
  have memo: "stage_memo (session_state (snd (enter_stage t))) (step (session_state t)) = q"
    using assms(2) by (auto simp: s' stage_memo_def)
  have "c \<in># mset cs" unfolding m by simp
  then have "c \<in> set cs" by simp
  moreover have "size (mset cs) = size (mset (dict_values d) + {#c#})" unfolding m ..
  then have "length cs = length (dict_values d) + 1" by simp
  ultimately show ?thesis using memo q d by blast
qed

text \<open>The scenario of the specification, entering step 1.\<close>

theorem generated_choices_hold_the_correct_answer_witness:
  "fst (enter_stage (at_step 1 scenario_gateway)) = Inr ()
   \<and> step (session_state (at_step 1 scenario_gateway)) \<in> {1, 2, 3}
   \<and> stage_memo (session_state (at_step 1 scenario_gateway))
        (step (session_state (at_step 1 scenario_gateway))) = []
   \<and> (\<exists>c cs d.
         answer_set (stage_memo (session_state (snd (enter_stage (at_step 1 scenario_gateway))))
           (step (session_state (at_step 1 scenario_gateway)))) c cs
       \<and> last_reply (snd (enter_stage (at_step 1 scenario_gateway))) = Inr d
       \<and> c \<in> set cs
       \<and> length cs = length (dict_values d) + 1)"
proof -
  have h1: "fst (enter_stage (at_step 1 scenario_gateway)) = Inr ()"
    by (simp add: hangul_entry_runs)
  have h2: "step (session_state (at_step 1 scenario_gateway)) \<in> {1, 2, 3}"
    by (simp add: at_step_def)
  have h3: "stage_memo (session_state (at_step 1 scenario_gateway))
        (step (session_state (at_step 1 scenario_gateway))) = []"
    by (simp add: at_step_def stage_memo_def init_session_def)
  from generated_choices_hold_the_correct_answer [OF h1 h2 h3] h1 h2 h3 show ?thesis
    by blast
qed

section \<open>Length, multiplicity and stability of the answer choices\<close>

text \<open>
  C1, as the code has it. When a quiz step (1, 2 or 3) with an empty dictionary is entered
  and the entry succeeds, the stored answer choices \<open>cs\<close> are the values of the
  wrong-answers reply \<open>d\<close> and the correct answer \<open>c\<close>, in some order. So \<open>cs\<close> has
  length 4 exactly when the reply has three values, and holds \<open>c\<close> exactly once exactly
  when no value of the reply equals \<open>c\<close>. Entering the step again, in any state that has
  the session as the first entry left it, changes nothing: no call, no draw, the same
  choices in the same order.
\<close>

theorem choices_permute_the_reply_and_stay_fixed:
  assumes "fst (enter_stage t) = Inr ()"
      and "step (session_state t) \<in> {1, 2, 3}"
      and "stage_memo (session_state t) (step (session_state t)) = []"
  shows "\<exists>c cs d.
           answer_set (stage_memo (session_state (snd (enter_stage t))) (step (session_state t))) c cs
         \<and> last_reply (snd (enter_stage t)) = Inr d
         \<and> mset cs = mset (dict_values d) + {#c#}
         \<and> (length cs = 4 \<longleftrightarrow> length (dict_values d) = 3)
         \<and> (count_list cs c = 1 \<longleftrightarrow> c \<notin> set (dict_values d))
         \<and> enter_stage (u\<lparr>session_state := session_state (snd (enter_stage t))\<rparr>)
             = (Inr (), u\<lparr>session_state := session_state (snd (enter_stage t))\<rparr>)"
proof -
  from enter_stage_generated [OF assms] obtain topic q c cs d where
    s': "session_state (snd (enter_stage t))
             = (if step (session_state t) = 1 then (session_state t)\<lparr>hangul_quiz_data := q\<rparr>
                else if step (session_state t) = 2 then (session_state t)\<lparr>english_quiz_data := q\<rparr>
                else (session_state t)\<lparr>fill_blank_data := q\<rparr>)"
    and q: "answer_set q c cs" and d: "last_reply (snd (enter_stage t)) = Inr d"
    and m: "mset cs = mset (dict_values d) + {#c#}"
    by blast
  have memo: "stage_memo (session_state (snd (enter_stage t))) (step (session_state t)) = q"
    using assms(2) by (auto simp: s' stage_memo_def)
  have "size (mset cs) = size (mset (dict_values d) + {#c#})" unfolding m ..
  then have len: "length cs = length (dict_values d) + 1" by simp
  have "count (mset cs) c = count (mset (dict_values d) + {#c#}) c" unfolding m ..
  then have cnt: "count_list cs c = count_list (dict_values d) c + 1"
    by (simp add: count_mset)
  have once: "count_list cs c = 1 \<longleftrightarrow> c \<notin> set (dict_values d)"
    unfolding cnt by (simp add: count_list_0_iff)
  have again: "enter_stage (u\<lparr>session_state := session_state (snd (enter_stage t))\<rparr>)
             = (Inr (), u\<lparr>session_state := session_state (snd (enter_stage t))\<rparr>)"
    by (rule enter_stage_again [OF assms(1)]) simp
  have four: "length cs = 4 \<longleftrightarrow> length (dict_values d) = 3"
    unfolding len by arith
  show ?thesis
    apply (rule exI [of _ c], rule exI [of _ cs], rule exI [of _ d])
    using memo q d m four once again by simp
qed

text \<open>The scenario of the specification: three wrong answers, all different from ap-eul.\<close>

theorem choices_permute_the_reply_and_stay_fixed_witness:
  "fst (enter_stage (at_step 1 scenario_gateway)) = Inr ()
   \<and> step (session_state (at_step 1 scenario_gateway)) \<in> {1, 2, 3}
   \<and> stage_memo (session_state (at_step 1 scenario_gateway))
        (step (session_state (at_step 1 scenario_gateway))) = []
   \<and> (\<exists>c cs d.
         answer_set (stage_memo (session_state (snd (enter_stage (at_step 1 scenario_gateway))))
           (step (session_state (at_step 1 scenario_gateway)))) c cs
       \<and> last_reply (snd (enter_stage (at_step 1 scenario_gateway))) = Inr d
       \<and> mset cs = mset (dict_values d) + {#c#}
       \<and> (length cs = 4 \<longleftrightarrow> length (dict_values d) = 3)
       \<and> (count_list cs c = 1 \<longleftrightarrow> c \<notin> set (dict_values d))
       \<and> enter_stage (snd (enter_stage (at_step 1 scenario_gateway)))
           = (Inr (), snd (enter_stage (at_step 1 scenario_gateway))))"
proof -
  have h1: "fst (enter_stage (at_step 1 scenario_gateway)) = Inr ()"
    by (simp add: hangul_entry_runs)
  have h2: "step (session_state (at_step 1 scenario_gateway)) \<in> {1, 2, 3}"
    by (simp add: at_step_def)
  have h3: "stage_memo (session_state (at_step 1 scenario_gateway))
        (step (session_state (at_step 1 scenario_gateway))) = []"
    by (simp add: at_step_def stage_memo_def init_session_def)
  from choices_permute_the_reply_and_stay_fixed
         [OF h1 h2 h3, of "snd (enter_stage (at_step 1 scenario_gateway))"] h1 h2 h3
  show ?thesis by simp
qed

text \<open>
  With a wrong-answers reply of two values, entry of step 1 succeeds and stores three
  answer choices.
\<close>

theorem three_choices_counterexample:
  "fst (enter_stage (at_step 1 duplicated_wrong_gateway)) = Inr ()
   \<and> getitem (stage_memo (session_state (snd (enter_stage (at_step 1 duplicated_wrong_gateway)))) 1)
        ''answer_choices''
       = Inr (StrList [''a-peul'', ''ap-eul'', ''a-peul''])"
  by (simp add: script scenario duplicated_wrong_gateway_def)

section \<open>Stage entry generates once\<close>

text \<open>
  C2. After a successful stage entry, entering again in any state with the session it left
  is a no-op: the result is success and the state, the log of calls included, is the same.
  What the first entry did: at step 0 without a topic it stored the reply to the topic
  call; at a quiz step with an empty dictionary it stored the result of that step's
  generation; otherwise it reused what was stored and changed nothing.
\<close>

theorem stage_entry_generates_once:
  assumes "fst (enter_stage t) = Inr ()"
  shows "enter_stage (u\<lparr>session_state := session_state (snd (enter_stage t))\<rparr>)
           = (Inr (), u\<lparr>session_state := session_state (snd (enter_stage t))\<rparr>)
       \<and> (if step (session_state t) = 0 \<and> topic_info (session_state t) = None
          then \<exists>d. fst (get_random_topic t) = Inr d
                 \<and> session_state (snd (enter_stage t)) = (session_state t)\<lparr>topic_info := Some d\<rparr>
          else if step (session_state t) \<in> {1, 2, 3}
                  \<and> stage_memo (session_state t) (step (session_state t)) = []
          then \<exists>topic q. subscript (topic_info (session_state t)) ''topic'' = Inr topic
                 \<and> fst (provider (step (session_state t)) topic t) = Inr q
                 \<and> stage_memo (session_state (snd (enter_stage t))) (step (session_state t)) = q
          else snd (enter_stage t) = t)"
proof -
  have again: "enter_stage (u\<lparr>session_state := session_state (snd (enter_stage t))\<rparr>)
           = (Inr (), u\<lparr>session_state := session_state (snd (enter_stage t))\<rparr>)"
    by (rule enter_stage_again [OF assms]) simp
  consider (topic) "step (session_state t) = 0 \<and> topic_info (session_state t) = None"
    | (quiz) "step (session_state t) \<in> {1, 2, 3}
                  \<and> stage_memo (session_state t) (step (session_state t)) = []"
    | (reuse) "\<not> (step (session_state t) = 0 \<and> topic_info (session_state t) = None)"
        "\<not> (step (session_state t) \<in> {1, 2, 3}
                  \<and> stage_memo (session_state t) (step (session_state t)) = [])"
    by blast
  then show ?thesis
  proof cases
    case topic
    with assms have "\<exists>d. fst (get_random_topic t) = Inr d
                 \<and> session_state (snd (enter_stage t)) = (session_state t)\<lparr>topic_info := Some d\<rparr>"
      by (auto simp: enter_stage_def enter_topic_eq get_random_topic_def get_json_response_def
            py_bind_def get_session_def split: sum.splits)
    with topic again show ?thesis by simp
  next
    case quiz
    then have st: "step (session_state t) \<in> {1, 2, 3}"
      and empty: "stage_memo (session_state t) (step (session_state t)) = []" by simp_all
    from enter_stage_generated [OF assms st empty] obtain topic q where
      "subscript (topic_info (session_state t)) ''topic'' = Inr topic"
      "fst (provider (step (session_state t)) topic t) = Inr q"
      "session_state (snd (enter_stage t))
             = (if step (session_state t) = 1 then (session_state t)\<lparr>hangul_quiz_data := q\<rparr>
                else if step (session_state t) = 2 then (session_state t)\<lparr>english_quiz_data := q\<rparr>
                else (session_state t)\<lparr>fill_blank_data := q\<rparr>)"
      by blast
    moreover from this st
    have "stage_memo (session_state (snd (enter_stage t))) (step (session_state t)) = q"
      by (auto simp: stage_memo_def)
    ultimately show ?thesis using quiz again by auto
  next
    case reuse
    with assms have "snd (enter_stage t) = t"
      by (auto simp: enter_stage_def enter_topic_eq enter_hangul_eq enter_english_eq
            enter_fill_blank_eq py_bind_def py_then_def ret_def get_session_def stage_memo_def
            split: sum.splits if_splits)
    with reuse again show ?thesis by auto
  qed
qed

text \<open>Step 1 of the scenario: the second entry leaves the three calls of the first.\<close>

theorem stage_entry_generates_once_witness:
  "fst (enter_stage (at_step 1 scenario_gateway)) = Inr ()
   \<and> enter_stage (snd (enter_stage (at_step 1 scenario_gateway)))
       = (Inr (), snd (enter_stage (at_step 1 scenario_gateway)))
   \<and> calls (snd (enter_stage (snd (enter_stage (at_step 1 scenario_gateway)))))
       = [(EnglishToHangul, ''apple''), (HangulToPronunciation, ''sagwa''),
          (WrongAnswers, ''ap-eul'')]
   \<and> stage_memo (session_state (snd (enter_stage (at_step 1 scenario_gateway)))) 1
       = [(''hangul'', Str ''sagwa''), (''correct_answer'', Str ''ap-eul''),
          (''explanation'', Str ''sa-gwa''),
          (''answer_choices'', StrList [''ap-eu'', ''a-pool'', ''ap-eul'', ''a-peul''])]"
proof -
  have h: "fst (enter_stage (at_step 1 scenario_gateway)) = Inr ()"
    by (simp add: hangul_entry_runs)
  from stage_entry_generates_once [OF h, of "snd (enter_stage (at_step 1 scenario_gateway))"]
  have "enter_stage (snd (enter_stage (at_step 1 scenario_gateway)))
       = (Inr (), snd (enter_stage (at_step 1 scenario_gateway)))"
    by simp
  with h show ?thesis by (simp add: hangul_entry_runs stage_memo_def)
qed

section \<open>What a run of a quiz step leaves alone\<close>

lemma py_bind_core:
  assumes "\<And>t. core (snd (m t)) = core t"
      and "\<And>x t. core (snd (f x t)) = core t"
  shows "core (snd (py_bind m f t)) = core t"
proof (cases "m t")
  case (Pair r t')
  then have "core t' = core t" using assms(1) [of t] by simp
  with Pair show ?thesis using assms(2) by (cases r) (simp_all add: py_bind_def)
qed

lemma py_then_core:
  assumes "\<And>t. core (snd (m t)) = core t"
      and "\<And>t. core (snd (n t)) = core t"
  shows "core (snd (py_then m n t)) = core t"
  unfolding py_then_def using assms by (rule py_bind_core)

lemma if_core:
  assumes "\<And>t. core (snd (m t)) = core t"
      and "\<And>t. core (snd (n t)) = core t"
  shows "core (snd ((if b then m else n) t)) = core t"
  using assms by simp

lemma basic_core:
  "core (snd (emit e t)) = core t"
  "core (snd (st_button inp b t)) = core t"
  "core (snd (st_radio inp l opts t)) = core t"
  "core (snd (lift r t)) = core t"
  "core (snd (ret x t)) = core t"
  "core (snd (raise err t)) = core t"
  "core (snd (get_session t)) = core t"
  by (simp_all add: core_def act)

lemmas keeps_core = py_bind_core py_then_core if_core basic_core

lemma check_answer_core:
  "core (snd (check_answer inp data user_choice next_button t)) = core t"
  unfolding check_answer_def by (intro keeps_core)

lemma show_hangul_core: "core (snd (show_hangul inp t)) = core t"
  unfolding show_hangul_def by (intro keeps_core check_answer_core)

lemma show_english_core: "core (snd (show_english inp topic t)) = core t"
  unfolding show_english_def by (intro keeps_core check_answer_core)

lemma show_fill_blank_core: "core (snd (show_fill_blank inp t)) = core t"
  unfolding show_fill_blank_def by (intro keeps_core check_answer_core)

lemma core_fields:
  assumes "core t' = core t"
  shows "session_state t' = session_state t" and "calls t' = calls t" and "draws t' = draws t"
    and "gateway t' = gateway t" and "randbelow t' = randbelow t"
proof -
  have "session_state (core t') = session_state (core t)" "calls (core t') = calls (core t)"
    "draws (core t') = draws (core t)" "gateway (core t') = gateway (core t)"
    "randbelow (core t') = randbelow (core t)"
    using assms by simp_all
  then show "session_state t' = session_state t" and "calls t' = calls t"
    and "draws t' = draws t" and "gateway t' = gateway t" and "randbelow t' = randbelow t"
    by (simp_all add: core_def)
qed

lemma core_emit [simp]: "core (t\<lparr>page := p\<rparr>) = core t"
  by (simp add: core_def)

text \<open>A quiz step whose dictionary is there: the run changes the page only.\<close>

lemma enter_quiz_reuse:
  "hangul_quiz_data (session_state t) \<noteq> [] \<Longrightarrow> snd (enter_hangul t) = t"
  "english_quiz_data (session_state t) \<noteq> [] \<Longrightarrow> snd (enter_english t) = t"
  "fill_blank_data (session_state t) \<noteq> [] \<Longrightarrow> snd (enter_fill_blank t) = t"
  by (simp_all add: enter_hangul_eq enter_english_eq enter_fill_blank_eq split: sum.splits)

lemma step1_eq:
  "step1 inp t =
     (case enter_hangul (t\<lparr>page := page t @ [Subheader ''Step 2: Pronunciation from Hangul'']\<rparr>) of
        (Inl e, t') \<Rightarrow> (Inl e, t')
      | (Inr topic, t') \<Rightarrow> show_hangul inp t')"
  by (simp add: step1_def py_then_def py_bind_def emit_def)

lemma step2_eq:
  "step2 inp t =
     (case enter_english (t\<lparr>page := page t @ [Subheader ''Step 3: Pronunciation from English'']\<rparr>) of
        (Inl e, t') \<Rightarrow> (Inl e, t')
      | (Inr topic, t') \<Rightarrow> show_english inp topic t')"
  by (simp add: step2_def py_then_def py_bind_def emit_def)

lemma step3_eq:
  "step3 inp t =
     (case enter_fill_blank (t\<lparr>page := page t @ [Subheader ''Step 4: Fill in the Blank'']\<rparr>) of
        (Inl e, t') \<Rightarrow> (Inl e, t')
      | (Inr topic, t') \<Rightarrow> show_fill_blank inp t')"
  by (simp add: step3_def py_then_def py_bind_def emit_def)

lemma run_game_step_eq:
  "run_game_step inp t =
     (if step (session_state t) = 0 then step0 inp t
      else if step (session_state t) = 1 then step1 inp t
      else if step (session_state t) = 2 then step2 inp t
      else if step (session_state t) = 3 then step3 inp t
      else if step (session_state t) = 4 then step4 inp t
      else (Inr (), t))"
  by (simp add: run_game_step_def py_bind_def get_session_def ret_def)

lemma quiz_step_core:
  assumes "step (session_state t) \<in> {1, 2, 3}"
      and "stage_memo (session_state t) (step (session_state t)) \<noteq> []"
  shows "core (snd (run_game_step inp t)) = core t"
proof -
  consider "step (session_state t) = 1" | "step (session_state t) = 2" | "step (session_state t) = 3"
    using assms(1) by auto
  then show ?thesis
  proof cases
    case 1
    define t1 where "t1 = t\<lparr>page := page t @ [Subheader ''Step 2: Pronunciation from Hangul'']\<rparr>"
    obtain r t2 where e: "enter_hangul t1 = (r, t2)" by (cases "enter_hangul t1")
    from assms(2) 1 have "hangul_quiz_data (session_state t1) \<noteq> []"
      by (simp add: stage_memo_def t1_def)
    from enter_quiz_reuse(1) [OF this] e have t2: "t2 = t1" by simp
    have c1: "core t1 = core t" by (simp add: t1_def)
    have "core (snd (step1 inp t)) = core t"
    proof (cases r)
      case (Inl err)
      with e t2 c1 show ?thesis by (simp add: step1_eq t1_def [symmetric])
    next
      case (Inr topic)
      with e t2 c1 show ?thesis by (simp add: step1_eq t1_def [symmetric] show_hangul_core)
    qed
    with 1 show ?thesis by (simp add: run_game_step_eq)
  next
    case 2
    define t1 where "t1 = t\<lparr>page := page t @ [Subheader ''Step 3: Pronunciation from English'']\<rparr>"
    obtain r t2 where e: "enter_english t1 = (r, t2)" by (cases "enter_english t1")
    from assms(2) 2 have "english_quiz_data (session_state t1) \<noteq> []"
      by (simp add: stage_memo_def t1_def)
    from enter_quiz_reuse(2) [OF this] e have t2: "t2 = t1" by simp
    have c1: "core t1 = core t" by (simp add: t1_def)
    have "core (snd (step2 inp t)) = core t"
    proof (cases r)
      case (Inl err)
      with e t2 c1 show ?thesis by (simp add: step2_eq t1_def [symmetric])
    next
      case (Inr topic)
      with e t2 c1 show ?thesis by (simp add: step2_eq t1_def [symmetric] show_english_core)
    qed
    with 2 show ?thesis by (simp add: run_game_step_eq)
  next
    case 3
    define t1 where "t1 = t\<lparr>page := page t @ [Subheader ''Step 4: Fill in the Blank'']\<rparr>"
    obtain r t2 where e: "enter_fill_blank t1 = (r, t2)" by (cases "enter_fill_blank t1")
    from assms(2) 3 have "fill_blank_data (session_state t1) \<noteq> []"
      by (simp add: stage_memo_def t1_def)
    from enter_quiz_reuse(3) [OF this] e have t2: "t2 = t1" by simp
    have c1: "core t1 = core t" by (simp add: t1_def)
    have "core (snd (step3 inp t)) = core t"
    proof (cases r)
      case (Inl err)
      with e t2 c1 show ?thesis by (simp add: step3_eq t1_def [symmetric])
    next
      case (Inr topic)
      with e t2 c1 show ?thesis by (simp add: step3_eq t1_def [symmetric] show_fill_blank_core)
    qed
    with 3 show ?thesis by (simp add: run_game_step_eq)
  qed
qed

section \<open>The answer check is a read\<close>

text \<open>
  C9. At a quiz step whose dictionary is there, the run caused by a click on
  \<^verbatim>\<open>Check Answer\<close> leaves the session as it was, whatever option is selected: the step,
  the topic and the three dictionaries are the same, no call is made and no number is
  drawn. The interaction as a whole does not change the session either: the button has no
  callback. The step moves only by \<open>next_step\<close>, which other buttons trigger.
\<close>

theorem answer_check_changes_no_state:
  assumes "step (session_state t) \<in> {1, 2, 3}"
      and "stage_memo (session_state t) (step (session_state t)) \<noteq> []"
      and "clicked inp = Some CheckAnswer"
  shows "session_state (snd (run_game_step inp t)) = session_state t
       \<and> calls (snd (run_game_step inp t)) = calls t
       \<and> draws (snd (run_game_step inp t)) = draws t
       \<and> session_state (interact inp t) = session_state t"
proof -
  have run: "core (snd (run_game_step inp t)) = core t"
    using assms(1,2) by (rule quiz_step_core)
  have r2: "core (snd (run_game_step inp (t\<lparr>page := []\<rparr>))) = core (t\<lparr>page := []\<rparr>)"
    by (rule quiz_step_core) (use assms(1,2) in simp_all)
  have "session_state (rerun inp t) = session_state (t\<lparr>page := []\<rparr>)"
    unfolding rerun_def by (rule core_fields(1) [OF r2])
  then have "session_state (rerun inp t) = session_state t" by simp
  then have "session_state (interact inp t) = session_state t"
    using assms(3) by (simp add: interact_def on_click_def)
  with core_fields(1-3) [OF run] show ?thesis by simp
qed

text \<open>Step 1 of the scenario, once entered, with the wrong answer a-peul selected.\<close>

theorem answer_check_changes_no_state_witness:
  "step (session_state (snd (enter_stage (at_step 1 scenario_gateway)))) \<in> {1, 2, 3}
   \<and> stage_memo (session_state (snd (enter_stage (at_step 1 scenario_gateway))))
        (step (session_state (snd (enter_stage (at_step 1 scenario_gateway))))) \<noteq> []
   \<and> clicked (check_click ''a-peul'') = Some CheckAnswer
   \<and> session_state (snd (run_game_step (check_click ''a-peul'')
         (snd (enter_stage (at_step 1 scenario_gateway)))))
       = session_state (snd (enter_stage (at_step 1 scenario_gateway)))
   \<and> calls (snd (run_game_step (check_click ''a-peul'')
         (snd (enter_stage (at_step 1 scenario_gateway)))))
       = calls (snd (enter_stage (at_step 1 scenario_gateway)))
   \<and> draws (snd (run_game_step (check_click ''a-peul'')
         (snd (enter_stage (at_step 1 scenario_gateway)))))
       = draws (snd (enter_stage (at_step 1 scenario_gateway)))
   \<and> session_state (interact (check_click ''a-peul'')
         (snd (enter_stage (at_step 1 scenario_gateway))))
       = session_state (snd (enter_stage (at_step 1 scenario_gateway)))"
proof -
  have h1: "step (session_state (snd (enter_stage (at_step 1 scenario_gateway)))) \<in> {1, 2, 3}"
    by (simp add: hangul_entry_runs) (simp add: at_step_def)
  have h2: "stage_memo (session_state (snd (enter_stage (at_step 1 scenario_gateway))))
        (step (session_state (snd (enter_stage (at_step 1 scenario_gateway))))) \<noteq> []"
    by (simp add: hangul_entry_runs) (simp add: at_step_def stage_memo_def)
  have h3: "clicked (check_click ''a-peul'') = Some CheckAnswer"
    by (simp add: check_click_def)
  from answer_check_changes_no_state [OF h1 h2 h3] h1 h2 h3 show ?thesis
    by blast
qed

section \<open>The verdict of the answer check\<close>

lemma check_answer_verdict:
  assumes "clicked inp = Some CheckAnswer"
      and "fst (check_answer inp data uc nb t) = Inr ()"
      and "Success ''Correct!'' \<notin> set (page t)" and "ErrorBox ''Wrong!'' \<notin> set (page t)"
  shows "\<exists>c. getitem data ''correct_answer'' = Inr c
           \<and> (Success ''Correct!'' \<in> set (page (snd (check_answer inp data uc nb t))) \<longleftrightarrow> uc = c)
           \<and> (ErrorBox ''Wrong!'' \<in> set (page (snd (check_answer inp data uc nb t))) \<longleftrightarrow> uc \<noteq> c)"
  using assms
  by (cases "getitem data ''correct_answer''"; cases "getitem data ''explanation''")
     (auto simp: check_answer_def act)

lemma show_hangul_eq:
  "show_hangul inp t =
     (case getitem (hangul_quiz_data (session_state t)) ''hangul'' of
        Inl e \<Rightarrow> (Inl e, t\<lparr>page := page t @
                 [Write [Str ''What is the pronunciation of the following Korean text?'']]\<rparr>)
      | Inr hangul \<Rightarrow>
         (case getitem (hangul_quiz_data (session_state t)) ''answer_choices'' of
            Inl e \<Rightarrow> (Inl e, t\<lparr>page := page t @
                 [Write [Str ''What is the pronunciation of the following Korean text?''],
                  WriteBold hangul]\<rparr>)
          | Inr options \<Rightarrow>
              check_answer inp (hangul_quiz_data (session_state t)) (Str (choice inp)) NextEnglish
                (t\<lparr>page := page t @
                 [Write [Str ''What is the pronunciation of the following Korean text?''],
                  WriteBold hangul, Radio ''Choose the correct answer:'' options]\<rparr>)))"
  by (simp add: show_hangul_def act split: sum.splits)

lemma show_english_eq:
  "show_english inp topic t =
     (case getitem (english_quiz_data (session_state t)) ''answer_choices'' of
        Inl e \<Rightarrow> (Inl e, t\<lparr>page := page t @
             [Write [Str ''What is the Korean pronunciation of this English word or phrase?''],
              WriteBold (Str topic)]\<rparr>)
      | Inr options \<Rightarrow>
          check_answer inp (english_quiz_data (session_state t)) (Str (choice inp)) NextFillBlank
            (t\<lparr>page := page t @
             [Write [Str ''What is the Korean pronunciation of this English word or phrase?''],
              WriteBold (Str topic), Radio ''Choose the correct answer:'' options]\<rparr>))"
  by (simp add: show_english_def act split: sum.splits)

lemma show_fill_blank_eq:
  "show_fill_blank inp t =
     (case getitem (fill_blank_data (session_state t)) ''sentence_with_blank'' of
        Inl e \<Rightarrow> (Inl e, t\<lparr>page := page t @
                 [Write [Str ''Fill in the blank in this Korean sentence:'']]\<rparr>)
      | Inr sentence \<Rightarrow>
         (case getitem (fill_blank_data (session_state t)) ''answer_choices'' of
            Inl e \<Rightarrow> (Inl e, t\<lparr>page := page t @
                 [Write [Str ''Fill in the blank in this Korean sentence:''],
                  WriteBold sentence]\<rparr>)
          | Inr options \<Rightarrow>
              check_answer inp (fill_blank_data (session_state t)) (Str (choice inp)) NextContinue
                (t\<lparr>page := page t @
                 [Write [Str ''Fill in the blank in this Korean sentence:''],
                  WriteBold sentence, Radio ''Which subject completes the sentence?'' options]\<rparr>)))"
  by (simp add: show_fill_blank_def act split: sum.splits)

lemma show_quiz_verdict:
  assumes "clicked inp = Some CheckAnswer"
      and "Success ''Correct!'' \<notin> set (page t)" and "ErrorBox ''Wrong!'' \<notin> set (page t)"
  shows "fst (show_hangul inp t) = Inr () \<Longrightarrow>
         \<exists>c. getitem (hangul_quiz_data (session_state t)) ''correct_answer'' = Inr c
           \<and> (Success ''Correct!'' \<in> set (page (snd (show_hangul inp t))) \<longleftrightarrow> Str (choice inp) = c)
           \<and> (ErrorBox ''Wrong!'' \<in> set (page (snd (show_hangul inp t))) \<longleftrightarrow> Str (choice inp) \<noteq> c)"
    and "fst (show_english inp topic t) = Inr () \<Longrightarrow>
         \<exists>c. getitem (english_quiz_data (session_state t)) ''correct_answer'' = Inr c
           \<and> (Success ''Correct!'' \<in> set (page (snd (show_english inp topic t))) \<longleftrightarrow> Str (choice inp) = c)
           \<and> (ErrorBox ''Wrong!'' \<in> set (page (snd (show_english inp topic t))) \<longleftrightarrow> Str (choice inp) \<noteq> c)"
    and "fst (show_fill_blank inp t) = Inr () \<Longrightarrow>
         \<exists>c. getitem (fill_blank_data (session_state t)) ''correct_answer'' = Inr c
           \<and> (Success ''Correct!'' \<in> set (page (snd (show_fill_blank inp t))) \<longleftrightarrow> Str (choice inp) = c)
           \<and> (ErrorBox ''Wrong!'' \<in> set (page (snd (show_fill_blank inp t))) \<longleftrightarrow> Str (choice inp) \<noteq> c)"
proof -
  assume ok: "fst (show_hangul inp t) = Inr ()"
  then obtain h opts where
    "show_hangul inp t = check_answer inp (hangul_quiz_data (session_state t)) (Str (choice inp))
        NextEnglish (t\<lparr>page := page t @
                 [Write [Str ''What is the pronunciation of the following Korean text?''],
                  WriteBold h, Radio ''Choose the correct answer:'' opts]\<rparr>)"
    by (auto simp: show_hangul_eq split: sum.splits)
  with ok assms show "\<exists>c. getitem (hangul_quiz_data (session_state t)) ''correct_answer'' = Inr c
           \<and> (Success ''Correct!'' \<in> set (page (snd (show_hangul inp t))) \<longleftrightarrow> Str (choice inp) = c)
           \<and> (ErrorBox ''Wrong!'' \<in> set (page (snd (show_hangul inp t))) \<longleftrightarrow> Str (choice inp) \<noteq> c)"
    using check_answer_verdict [of inp "hangul_quiz_data (session_state t)" "Str (choice inp)"
        NextEnglish "t\<lparr>page := page t @
                 [Write [Str ''What is the pronunciation of the following Korean text?''],
                  WriteBold h, Radio ''Choose the correct answer:'' opts]\<rparr>"]
    by simp
next
  assume ok: "fst (show_english inp topic t) = Inr ()"
  then obtain opts where
    "show_english inp topic t = check_answer inp (english_quiz_data (session_state t)) (Str (choice inp))
        NextFillBlank (t\<lparr>page := page t @
             [Write [Str ''What is the Korean pronunciation of this English word or phrase?''],
              WriteBold (Str topic), Radio ''Choose the correct answer:'' opts]\<rparr>)"
    by (auto simp: show_english_eq split: sum.splits)
  with ok assms show "\<exists>c. getitem (english_quiz_data (session_state t)) ''correct_answer'' = Inr c
           \<and> (Success ''Correct!'' \<in> set (page (snd (show_english inp topic t))) \<longleftrightarrow> Str (choice inp) = c)
           \<and> (ErrorBox ''Wrong!'' \<in> set (page (snd (show_english inp topic t))) \<longleftrightarrow> Str (choice inp) \<noteq> c)"
    using check_answer_verdict [of inp "english_quiz_data (session_state t)" "Str (choice inp)"
        NextFillBlank "t\<lparr>page := page t @
             [Write [Str ''What is the Korean pronunciation of this English word or phrase?''],
              WriteBold (Str topic), Radio ''Choose the correct answer:'' opts]\<rparr>"]
    by simp
next
  assume ok: "fst (show_fill_blank inp t) = Inr ()"
  then obtain h opts where
    "show_fill_blank inp t = check_answer inp (fill_blank_data (session_state t)) (Str (choice inp))
        NextContinue (t\<lparr>page := page t @
                 [Write [Str ''Fill in the blank in this Korean sentence:''],
                  WriteBold h, Radio ''Which subject completes the sentence?'' opts]\<rparr>)"
    by (auto simp: show_fill_blank_eq split: sum.splits)
  with ok assms show "\<exists>c. getitem (fill_blank_data (session_state t)) ''correct_answer'' = Inr c
           \<and> (Success ''Correct!'' \<in> set (page (snd (show_fill_blank inp t))) \<longleftrightarrow> Str (choice inp) = c)
           \<and> (ErrorBox ''Wrong!'' \<in> set (page (snd (show_fill_blank inp t))) \<longleftrightarrow> Str (choice inp) \<noteq> c)"
    using check_answer_verdict [of inp "fill_blank_data (session_state t)" "Str (choice inp)"
        NextContinue "t\<lparr>page := page t @
                 [Write [Str ''Fill in the blank in this Korean sentence:''],
                  WriteBold h, Radio ''Which subject completes the sentence?'' opts]\<rparr>"]
    by simp
qed

lemma enter_quiz_page:
  "enter_hangul t = (Inr topic, t') \<Longrightarrow> page t' = page t"
  "enter_english t = (Inr topic, t') \<Longrightarrow> page t' = page t"
  "enter_fill_blank t = (Inr topic, t') \<Longrightarrow> page t' = page t"
  by (auto simp: enter_hangul_eq enter_english_eq enter_fill_blank_eq
        split: sum.splits if_splits prod.splits
        dest: generate_hangul_quiz_Inr generate_english_quiz_Inr generate_fill_blank_Inr)

text \<open>
  C3. At a quiz step (1, 2 or 3), in a run caused by a click on \<^verbatim>\<open>Check Answer\<close> that
  ends without an exception, the dictionary of the step holds a correct answer, the page
  shows \<^verbatim>\<open>Correct!\<close> if and only if the selected option equals it, and shows
  \<^verbatim>\<open>Wrong!\<close> if and only if it does not. Equality is that of Python strings: the same
  characters.
\<close>

theorem answer_check_is_exact_match:
  assumes st: "step (session_state t) \<in> {1, 2, 3}"
      and click: "clicked inp = Some CheckAnswer"
      and ok: "fst (run_game_step inp (t\<lparr>page := []\<rparr>)) = Inr ()"
  shows "\<exists>c. getitem (stage_memo (session_state (rerun inp t)) (step (session_state t)))
                ''correct_answer'' = Inr c
           \<and> (Success ''Correct!'' \<in> set (page (rerun inp t)) \<longleftrightarrow> Str (choice inp) = c)
           \<and> (ErrorBox ''Wrong!'' \<in> set (page (rerun inp t)) \<longleftrightarrow> Str (choice inp) \<noteq> c)"
proof -
  define t0 where "t0 = t\<lparr>page := []\<rparr>"
  have s0: "step (session_state t0) = step (session_state t)" by (simp add: t0_def)
  consider "step (session_state t) = 1" | "step (session_state t) = 2" | "step (session_state t) = 3"
    using st by auto
  then show ?thesis
  proof cases
    case 1
    define t1 where "t1 = t0\<lparr>page := page t0 @ [Subheader ''Step 2: Pronunciation from Hangul'']\<rparr>"
    obtain r t2 where e: "enter_hangul t1 = (r, t2)" by (cases "enter_hangul t1")
    have run: "run_game_step inp t0 = step1 inp t0" using 1 s0 by (simp add: run_game_step_eq)
    with ok e obtain topic where r: "r = Inr topic"
      by (cases r) (auto simp: step1_eq t0_def t1_def)
    have sh: "run_game_step inp t0 = show_hangul inp t2"
      using run e r by (simp add: step1_eq t1_def)
    have "page t2 = page t1" using enter_quiz_page(1) e r by blast
    then have clean: "Success ''Correct!'' \<notin> set (page t2)" "ErrorBox ''Wrong!'' \<notin> set (page t2)"
      by (simp_all add: t1_def t0_def)
    have ok2: "fst (show_hangul inp t2) = Inr ()" using ok sh by (simp add: t0_def)
    have memo: "stage_memo (session_state (rerun inp t)) (step (session_state t))
                  = hangul_quiz_data (session_state t2)"
      using core_fields(1) [OF show_hangul_core, of inp t2] sh 1
      by (simp add: rerun_def t0_def stage_memo_def)
    from show_quiz_verdict(1) [OF click clean ok2] memo sh show ?thesis
      by (simp add: rerun_def t0_def)
  next
    case 2
    define t1 where "t1 = t0\<lparr>page := page t0 @ [Subheader ''Step 3: Pronunciation from English'']\<rparr>"
    obtain r t2 where e: "enter_english t1 = (r, t2)" by (cases "enter_english t1")
    have run: "run_game_step inp t0 = step2 inp t0" using 2 s0 by (simp add: run_game_step_eq)
    with ok e obtain topic where r: "r = Inr topic"
      by (cases r) (auto simp: step2_eq t0_def t1_def)
    have sh: "run_game_step inp t0 = show_english inp topic t2"
      using run e r by (simp add: step2_eq t1_def)
    have "page t2 = page t1" using enter_quiz_page(2) e r by blast
    then have clean: "Success ''Correct!'' \<notin> set (page t2)" "ErrorBox ''Wrong!'' \<notin> set (page t2)"
      by (simp_all add: t1_def t0_def)
    have ok2: "fst (show_english inp topic t2) = Inr ()" using ok sh by (simp add: t0_def)
    have memo: "stage_memo (session_state (rerun inp t)) (step (session_state t))
                  = english_quiz_data (session_state t2)"
      using core_fields(1) [OF show_english_core, of inp topic t2] sh 2
      by (simp add: rerun_def t0_def stage_memo_def)
    from show_quiz_verdict(2) [OF click clean ok2] memo sh show ?thesis
      by (simp add: rerun_def t0_def)
  next
    case 3
    define t1 where "t1 = t0\<lparr>page := page t0 @ [Subheader ''Step 4: Fill in the Blank'']\<rparr>"
    obtain r t2 where e: "enter_fill_blank t1 = (r, t2)" by (cases "enter_fill_blank t1")
    have run: "run_game_step inp t0 = step3 inp t0" using 3 s0 by (simp add: run_game_step_eq)
    with ok e obtain topic where r: "r = Inr topic"
      by (cases r) (auto simp: step3_eq t0_def t1_def)
    have sh: "run_game_step inp t0 = show_fill_blank inp t2"
      using run e r by (simp add: step3_eq t1_def)
    have "page t2 = page t1" using enter_quiz_page(3) e r by blast
    then have clean: "Success ''Correct!'' \<notin> set (page t2)" "ErrorBox ''Wrong!'' \<notin> set (page t2)"
      by (simp_all add: t1_def t0_def)
    have ok2: "fst (show_fill_blank inp t2) = Inr ()" using ok sh by (simp add: t0_def)
    have memo: "stage_memo (session_state (rerun inp t)) (step (session_state t))
                  = fill_blank_data (session_state t2)"
      using core_fields(1) [OF show_fill_blank_core, of inp t2] sh 3
      by (simp add: rerun_def t0_def stage_memo_def)
    from show_quiz_verdict(3) [OF click clean ok2] memo sh show ?thesis
      by (simp add: rerun_def t0_def)
  qed
qed

text \<open>The whole run of step 1 in the scenario, for any selected option \<open>c\<close>.\<close>

lemma hangul_check_runs:
  "run_game_step (check_click c) ((at_step 1 scenario_gateway)\<lparr>page := []\<rparr>)
     = (Inr (),
        (at_step 1 scenario_gateway)
          \<lparr>session_state := (session_state (at_step 1 scenario_gateway))
             \<lparr>hangul_quiz_data :=
                [(''hangul'', Str ''sagwa''), (''correct_answer'', Str ''ap-eul''),
                 (''explanation'', Str ''sa-gwa''),
                 (''answer_choices'', StrList [''ap-eu'', ''a-pool'', ''ap-eul'', ''a-peul''])]\<rparr>,
           calls := [(EnglishToHangul, ''apple''), (HangulToPronunciation, ''sagwa''),
                     (WrongAnswers, ''ap-eul'')],
           draws := 3,
           page :=
             [Subheader ''Step 2: Pronunciation from Hangul'',
              Write [Str ''What is the pronunciation of the following Korean text?''],
              WriteBold (Str ''sagwa''),
              Radio ''Choose the correct answer:''
                (StrList [''ap-eu'', ''a-pool'', ''ap-eul'', ''a-peul'']),
              Button CheckAnswer]
             @ (if c = ''ap-eul'' then [Success ''Correct!'']
                else [ErrorBox ''Wrong!'', Write [Str ''**Correct Answer:**'', Str ''ap-eul''],
                      Write [Str ''**Explanation:**'', Str ''sa-gwa'']])
             @ [Button NextEnglish]\<rparr>)"
  by (simp add: script scenario check_click_def)

theorem answer_check_is_exact_match_witness:
  "step (session_state (at_step 1 scenario_gateway)) \<in> {1, 2, 3}
   \<and> clicked (check_click ''ap-eul'') = Some CheckAnswer
   \<and> fst (run_game_step (check_click ''ap-eul'') ((at_step 1 scenario_gateway)\<lparr>page := []\<rparr>))
       = Inr ()
   \<and> (\<exists>c. getitem (stage_memo (session_state (rerun (check_click ''ap-eul'')
                 (at_step 1 scenario_gateway)))
               (step (session_state (at_step 1 scenario_gateway)))) ''correct_answer'' = Inr c
         \<and> (Success ''Correct!'' \<in> set (page (rerun (check_click ''ap-eul'')
                 (at_step 1 scenario_gateway)))
              \<longleftrightarrow> Str (choice (check_click ''ap-eul'')) = c)
         \<and> (ErrorBox ''Wrong!'' \<in> set (page (rerun (check_click ''ap-eul'')
                 (at_step 1 scenario_gateway)))
              \<longleftrightarrow> Str (choice (check_click ''ap-eul'')) \<noteq> c))"
proof -
  have h1: "step (session_state (at_step 1 scenario_gateway)) \<in> {1, 2, 3}"
    by (simp add: at_step_def)
  have h2: "clicked (check_click ''ap-eul'') = Some CheckAnswer"
    by (simp add: check_click_def)
  have h3: "fst (run_game_step (check_click ''ap-eul'')
      ((at_step 1 scenario_gateway)\<lparr>page := []\<rparr>)) = Inr ()"
    by (simp add: hangul_check_runs)
  from answer_check_is_exact_match [OF h1 h2 h3] h1 h2 h3 show ?thesis
    by blast
qed

section \<open>The step over a session\<close>

lemma step4_eq:
  "step4 inp t =
     (if clicked inp = Some NewTopic
      then (Inr (), t\<lparr>page := page t @ [Subheader ''Step 5: Continue or End?'', Button NewTopic,
                                          Button EndGame],
                       session_state := reset_game (session_state t)\<rparr>)
      else if clicked inp = Some EndGame
      then (Inl StopException,
            t\<lparr>page := page t @ [Subheader ''Step 5: Continue or End?'', Button NewTopic,
                                Button EndGame, Write [Str ''---''],
                                Write [Str ''# Thanks for playing!'']]\<rparr>)
      else (Inr (), t\<lparr>page := page t @ [Subheader ''Step 5: Continue or End?'', Button NewTopic,
                                          Button EndGame]\<rparr>))"
  by (simp add: step4_def act)

lemma enter_topic_step:
  "step (session_state (snd (enter_topic t))) = step (session_state t)"
  by (simp add: enter_topic_eq split: sum.splits)

lemma show_topic_step:
  "step (session_state (snd (show_topic inp t))) = step (session_state t)
   \<or> step (session_state (snd (show_topic inp t))) = step (session_state t) + 1"
  by (simp add: show_topic_def act next_step_def split: sum.splits)

lemma step0_step:
  "step (session_state (snd (step0 inp t))) = step (session_state t)
   \<or> step (session_state (snd (step0 inp t))) = step (session_state t) + 1"
proof -
  define t1 where "t1 = t\<lparr>page := page t @ [Subheader ''Step 1: Generate a Random Topic'']\<rparr>"
  obtain r t2 where e: "enter_topic t1 = (r, t2)" by (cases "enter_topic t1")
  have s2: "step (session_state t2) = step (session_state t)"
    using enter_topic_step [of t1] e by (simp add: t1_def)
  have eq: "step0 inp t = (case r of Inl err \<Rightarrow> (Inl err, t2) | Inr x \<Rightarrow> show_topic inp t2)"
    using e by (simp add: step0_def py_then_def py_bind_def emit_def t1_def split: sum.splits)
  show ?thesis
  proof (cases r)
    case (Inl err)
    with eq s2 show ?thesis by simp
  next
    case (Inr x)
    with eq s2 show_topic_step [of inp t2] show ?thesis by simp
  qed
qed

lemma quiz_step_keeps_step:
  assumes "step (session_state t) \<in> {1, 2, 3}"
  shows "step (session_state (snd (run_game_step inp t))) = step (session_state t)"
proof -
  consider "step (session_state t) = 1" | "step (session_state t) = 2" | "step (session_state t) = 3"
    using assms by auto
  then show ?thesis
  proof cases
    case 1
    define t1 where "t1 = t\<lparr>page := page t @ [Subheader ''Step 2: Pronunciation from Hangul'']\<rparr>"
    obtain r t2 where e: "enter_hangul t1 = (r, t2)" by (cases "enter_hangul t1")
    have s2: "step (session_state t2) = step (session_state t)"
      using enter_quiz_step [of t1 r t2] e by (simp add: t1_def)
    have "step (session_state (snd (step1 inp t))) = step (session_state t)"
    proof (cases r)
      case (Inl err)
      with e s2 show ?thesis by (simp add: step1_eq t1_def [symmetric])
    next
      case (Inr topic)
      with e s2 core_fields(1) [OF show_hangul_core, of inp t2] show ?thesis
        by (simp add: step1_eq t1_def [symmetric])
    qed
    with 1 show ?thesis by (simp add: run_game_step_eq)
  next
    case 2
    define t1 where "t1 = t\<lparr>page := page t @ [Subheader ''Step 3: Pronunciation from English'']\<rparr>"
    obtain r t2 where e: "enter_english t1 = (r, t2)" by (cases "enter_english t1")
    have s2: "step (session_state t2) = step (session_state t)"
      using enter_quiz_step [of t1 r t2] e by (simp add: t1_def)
    have "step (session_state (snd (step2 inp t))) = step (session_state t)"
    proof (cases r)
      case (Inl err)
      with e s2 show ?thesis by (simp add: step2_eq t1_def [symmetric])
    next
      case (Inr topic)
      with e s2 core_fields(1) [OF show_english_core, of inp topic t2] show ?thesis
        by (simp add: step2_eq t1_def [symmetric])
    qed
    with 2 show ?thesis by (simp add: run_game_step_eq)
  next
    case 3
    define t1 where "t1 = t\<lparr>page := page t @ [Subheader ''Step 4: Fill in the Blank'']\<rparr>"
    obtain r t2 where e: "enter_fill_blank t1 = (r, t2)" by (cases "enter_fill_blank t1")
    have s2: "step (session_state t2) = step (session_state t)"
      using enter_quiz_step [of t1 r t2] e by (simp add: t1_def)
    have "step (session_state (snd (step3 inp t))) = step (session_state t)"
    proof (cases r)
      case (Inl err)
      with e s2 show ?thesis by (simp add: step3_eq t1_def [symmetric])
    next
      case (Inr topic)
      with e s2 core_fields(1) [OF show_fill_blank_core, of inp t2] show ?thesis
        by (simp add: step3_eq t1_def [symmetric])
    qed
    with 3 show ?thesis by (simp add: run_game_step_eq)
  qed
qed

lemma rerun_wired:
  assumes "0 \<le> step (session_state t)" and "step (session_state t) \<le> 4"
  shows "wired (rerun inp t)
       \<and> (step (session_state t) \<le> step (session_state (rerun inp t))
          \<or> (clicked inp = Some NewTopic \<and> step (session_state (rerun inp t)) = 0))"
proof -
  define t0 where "t0 = t\<lparr>page := []\<rparr>"
  have s0: "step (session_state t0) = step (session_state t)" by (simp add: t0_def)
  consider "step (session_state t) = 0" | "step (session_state t) \<in> {1, 2, 3}"
    | "step (session_state t) = 4"
    using assms by force
  then show ?thesis
  proof cases
    case 1
    with step0_step [of inp t0] s0 show ?thesis
      by (auto simp: rerun_def t0_def [symmetric] run_game_step_eq wired_def)
  next
    case 2
    with quiz_step_keeps_step [of t0 inp] s0 show ?thesis
      by (auto simp: rerun_def t0_def [symmetric] wired_def)
  next
    case 3
    then show ?thesis
      by (simp add: rerun_def run_game_step_eq step4_eq wired_def reset_game_def)
  qed
qed

text \<open>
  As long as a click on a button with a callback is on a button that the page holds, an
  interaction keeps the step between 0 and 4, and either does not lower it or is a click
  on \<^verbatim>\<open>New Topic!\<close> that resets it to 0.
\<close>

lemma interact_wired:
  assumes "wired t"
      and "\<And>b. clicked inp = Some b \<Longrightarrow> on_click b \<Longrightarrow> Button b \<in> set (page t)"
  shows "wired (interact inp t)
       \<and> (step (session_state t) \<le> step (session_state (interact inp t))
          \<or> (clicked inp = Some NewTopic \<and> step (session_state (interact inp t)) = 0))"
proof (cases "clicked inp")
  case None
  with assms(1) rerun_wired [of t inp] show ?thesis by (simp add: interact_def wired_def)
next
  case (Some b)
  show ?thesis
  proof (cases "on_click b")
    case False
    with Some assms(1) rerun_wired [of t inp] show ?thesis
      by (simp add: interact_def wired_def)
  next
    case True
    define t1 where "t1 = snd (modify next_step t)"
    have s1: "step (session_state t1) = step (session_state t) + 1"
      by (simp add: t1_def modify_def next_step_def)
    from True Some assms(2) have "Button b \<in> set (page t)" by simp
    with True assms(1) have "step (session_state t) \<le> 3"
      by (auto simp: wired_def on_click_def)
    with assms(1) s1 have r: "0 \<le> step (session_state t1)" "step (session_state t1) \<le> 4"
      by (simp_all add: wired_def)
    from True Some have "clicked inp \<noteq> Some NewTopic" by (auto simp: on_click_def)
    with rerun_wired [OF r, of inp] s1 have
      "wired (rerun inp t1) \<and> step (session_state t) \<le> step (session_state (rerun inp t1))"
      by auto
    with Some True show ?thesis by (simp add: interact_def t1_def)
  qed
qed

lemma interactions_snoc:
  "interactions (inps @ [inp]) t = interact inp (interactions inps t)"
  by (simp add: interactions_def)

text \<open>The whole game of the scenario ends at step 4, on the page of step 4.\<close>

lemma full_game_session:
  "session_state (interactions full_game (fresh scenario_gateway first_slot))
     = \<lparr>topic_info = Some [(''topic'', ''apple''), (''tutorial'', ''sagwa'')],
        step = 4,
        hangul_quiz_data =
          [(''hangul'', Str ''sagwa''), (''correct_answer'', Str ''ap-eul''),
           (''explanation'', Str ''sa-gwa''),
           (''answer_choices'', StrList [''ap-eu'', ''a-pool'', ''ap-eul'', ''a-peul''])],
        english_quiz_data =
          [(''correct_answer'', Str ''ap-eul''), (''explanation'', Str ''sa-gwa''),
           (''answer_choices'', StrList [''ap-eu'', ''a-pool'', ''ap-eul'', ''a-peul''])],
        fill_blank_data =
          [(''sentence_with_blank'', Str ''___ is red''),
           (''correct_answer'', Str ''ap-eul''), (''explanation'', Str ''sa-gwa''),
           (''answer_choices'', StrList [''ap-eu'', ''a-pool'', ''ap-eul'', ''a-peul''])]\<rparr>"
  by (simp add: full_game_def interactions_def interact_def rerun_def on_click_def script
        scenario no_click_def check_click_def)

lemma full_game_page:
  "page (interactions full_game (fresh scenario_gateway first_slot))
     = [Subheader ''Step 5: Continue or End?'', Button NewTopic, Button EndGame]"
  by (simp add: full_game_def interactions_def interact_def rerun_def on_click_def script
        scenario no_click_def check_click_def)

text \<open>
  C5. The claim is that the step stays between 0 and 4 in every session and that
  advancing at step 4 does nothing; the docstring of \<^verbatim>\<open>run_game_step\<close> knows the steps 0
  to 4 and no other. The code does not keep that bound: \<open>next_step\<close> adds 1 to any step,
  and it runs for every delivered click on a button that carries it. After the whole game
  the session is at step 4; when the click on \<^verbatim>\<open>Next: Continue or End\<close> that brought it
  there is delivered once more, the step is 5, the run draws nothing (no branch of
  \<^verbatim>\<open>run_game_step\<close> is for step 5), and a further run draws nothing either.
\<close>

theorem repeated_next_click_reaches_step_5:
  "step (session_state (interactions full_game (fresh scenario_gateway first_slot))) = 4
   \<and> step (next_step (session_state (interactions full_game (fresh scenario_gateway first_slot))))
       = 5
   \<and> step (session_state
        (interactions (full_game @ [continue_click]) (fresh scenario_gateway first_slot)))
       = 5
   \<and> page (interactions (full_game @ [continue_click]) (fresh scenario_gateway first_slot)) = []
   \<and> page (interactions (full_game @ [continue_click, no_click])
        (fresh scenario_gateway first_slot)) = []"
proof -
  define t where "t = interactions full_game (fresh scenario_gateway first_slot)"
  have s: "step (session_state t) = 4" by (simp add: t_def full_game_session)
  have c: "interactions (full_game @ [continue_click]) (fresh scenario_gateway first_slot)
             = interact continue_click t"
    by (simp add: interactions_def t_def)
  have n: "interactions (full_game @ [continue_click, no_click])
             (fresh scenario_gateway first_slot)
             = interact no_click (interact continue_click t)"
    by (simp add: interactions_def t_def)
  have five: "step (session_state (interact continue_click t)) = 5"
    using s by (simp add: interact_def continue_click_def on_click_def rerun_def modify_def
          next_step_def run_game_step_eq)
  have empty: "page (interact continue_click t) = []"
    using s by (simp add: interact_def continue_click_def on_click_def rerun_def modify_def
          next_step_def run_game_step_eq)
  define u where "u = interact continue_click t"
  have "step (session_state u) = 5" using five by (simp add: u_def)
  then have "page (interact no_click u) = []"
    by (simp add: interact_def no_click_def rerun_def run_game_step_eq)
  then have "page (interact no_click (interact continue_click t)) = []"
    by (simp add: u_def)
  with s five empty show ?thesis
    unfolding c n t_def [symmetric] by (simp add: next_step_def)
qed

section \<open>End Game\<close>

text \<open>
  C8, as the code has it. At step 4, the run caused by a click on \<^verbatim>\<open>End Game\<close> writes the
  farewell and stops (\<^verbatim>\<open>st.stop()\<close>): it ends that run and nothing else. The session
  is as it was, no call is made, and nothing marks the session as ended. The page is the
  page of step 4 with the rule and the farewell below it, so it still holds
  \<^verbatim>\<open>New Topic!\<close>; the run that a click on it causes ends without an exception, and the
  interaction resets the session to the initial one.
\<close>

theorem end_game_stops_only_the_run:
  assumes "step (session_state t) = 4" and "clicked inp = Some EndGame"
  shows "fst (run_game_step inp t) = Inl StopException
       \<and> session_state (snd (run_game_step inp t)) = session_state t
       \<and> calls (snd (run_game_step inp t)) = calls t
       \<and> draws (snd (run_game_step inp t)) = draws t
       \<and> page (rerun inp t)
           = [Subheader ''Step 5: Continue or End?'', Button NewTopic, Button EndGame,
              Write [Str ''---''], Write [Str ''# Thanks for playing!'']]
       \<and> Button NewTopic \<in> set (page (rerun inp t))
       \<and> fst (run_game_step new_topic_click (rerun inp t)) = Inr ()
       \<and> session_state (interact new_topic_click (rerun inp t)) = init_session"
  using assms
  by (simp add: run_game_step_eq step4_eq rerun_def interact_def new_topic_click_def
        on_click_def reset_game_def init_session_def)

text \<open>A session of the scenario at step 4.\<close>

theorem end_game_stops_only_the_run_witness:
  "step (session_state (at_step 4 scenario_gateway)) = 4
   \<and> clicked end_click = Some EndGame
   \<and> fst (run_game_step end_click (at_step 4 scenario_gateway)) = Inl StopException
   \<and> session_state (snd (run_game_step end_click (at_step 4 scenario_gateway)))
       = session_state (at_step 4 scenario_gateway)
   \<and> calls (snd (run_game_step end_click (at_step 4 scenario_gateway)))
       = calls (at_step 4 scenario_gateway)
   \<and> draws (snd (run_game_step end_click (at_step 4 scenario_gateway)))
       = draws (at_step 4 scenario_gateway)
   \<and> page (rerun end_click (at_step 4 scenario_gateway))
       = [Subheader ''Step 5: Continue or End?'', Button NewTopic, Button EndGame,
          Write [Str ''---''], Write [Str ''# Thanks for playing!'']]
   \<and> Button NewTopic \<in> set (page (rerun end_click (at_step 4 scenario_gateway)))
   \<and> fst (run_game_step new_topic_click (rerun end_click (at_step 4 scenario_gateway))) = Inr ()
   \<and> session_state (interact new_topic_click (rerun end_click (at_step 4 scenario_gateway)))
       = init_session"
proof -
  have h1: "step (session_state (at_step 4 scenario_gateway)) = 4"
    by (simp add: at_step_def)
  have h2: "clicked end_click = Some EndGame"
    by (simp add: end_click_def)
  from end_game_stops_only_the_run [OF h1 h2] h1 h2 show ?thesis
    by blast
qed

text \<open>
  The whole game, then \<^verbatim>\<open>End Game\<close>, then \<^verbatim>\<open>New Topic!\<close>: the run after the end raises
  nothing and takes the step from 4 to 0.
\<close>

theorem reset_after_end_counterexample:
  "step (session_state (interactions full_game (fresh scenario_gateway first_slot))) = 4
   \<and> fst (run_game_step end_click
        ((interactions full_game (fresh scenario_gateway first_slot))\<lparr>page := []\<rparr>))
       = Inl StopException
   \<and> fst (run_game_step new_topic_click
        ((interactions (full_game @ [end_click]) (fresh scenario_gateway first_slot))
           \<lparr>page := []\<rparr>))
       = Inr ()
   \<and> step (session_state
        (interactions (full_game @ [end_click, new_topic_click])
           (fresh scenario_gateway first_slot)))
       = 0"
proof -
  define t where "t = interactions full_game (fresh scenario_gateway first_slot)"
  have s: "step (session_state t) = 4" by (simp add: t_def full_game_session)
  have e: "interactions (full_game @ [end_click]) (fresh scenario_gateway first_slot)
             = rerun end_click t"
    by (simp add: interactions_def t_def interact_def end_click_def on_click_def)
  have n: "interactions (full_game @ [end_click, new_topic_click])
             (fresh scenario_gateway first_slot)
             = interact new_topic_click (rerun end_click t)"
    using e by (simp add: interactions_def t_def)
  have s': "step (session_state (rerun end_click t)) = 4"
    using s by (simp add: rerun_def run_game_step_eq step4_eq end_click_def)
  have "fst (run_game_step end_click (t\<lparr>page := []\<rparr>)) = Inl StopException"
    using s by (simp add: run_game_step_eq step4_eq end_click_def)
  moreover have "fst (run_game_step new_topic_click ((rerun end_click t)\<lparr>page := []\<rparr>)) = Inr ()"
    using s' by (simp add: run_game_step_eq step4_eq new_topic_click_def)
  moreover have "step (session_state (interact new_topic_click (rerun end_click t))) = 0"
    using s by (simp add: rerun_def run_game_step_eq step4_eq end_click_def interact_def
          new_topic_click_def on_click_def reset_game_def)
  ultimately show ?thesis using s unfolding e n t_def [symmetric] by simp
qed

section \<open>A failed stage entry\<close>

lemma generate_hangul_quiz_shape:
  assumes "generate_hangul_quiz topic t = (Inr q, t')"
  shows "\<exists>h c e cs. q = [(''hangul'', Str h), (''correct_answer'', Str c),
                         (''explanation'', Str e), (''answer_choices'', StrList cs)]"
  using assms
  by (auto simp: generate_hangul_quiz_def english_to_korean_def
        hangul_to_korean_pronunciation_def act split: prod.splits sum.splits)

lemma generate_english_quiz_shape:
  assumes "generate_english_quiz topic t = (Inr q, t')"
  shows "\<exists>c e cs. q = [(''correct_answer'', Str c),
                         (''explanation'', Str e), (''answer_choices'', StrList cs)]"
  using assms
  by (auto simp: generate_english_quiz_def english_to_korean_pronunciation_def act
        split: prod.splits sum.splits)

lemma generate_fill_blank_shape:
  assumes "generate_fill_blank topic t = (Inr q, t')"
  shows "\<exists>b c e cs. q = [(''sentence_with_blank'', Str b), (''correct_answer'', Str c),
                         (''explanation'', Str e), (''answer_choices'', StrList cs)]"
  using assms
  by (auto simp: generate_fill_blank_def make_korean_sentence_def
        hangul_to_korean_pronunciation_def act split: prod.splits sum.splits)

lemma shown_after_generation:
  "hangul_quiz_data (session_state u) = [(''hangul'', Str h), (''correct_answer'', Str c),
       (''explanation'', Str e), (''answer_choices'', StrList cs)]
     \<Longrightarrow> fst (show_hangul inp u) = Inr ()"
  "english_quiz_data (session_state u) = [(''correct_answer'', Str c),
       (''explanation'', Str e), (''answer_choices'', StrList cs)]
     \<Longrightarrow> fst (show_english inp topic u) = Inr ()"
  "fill_blank_data (session_state u) = [(''sentence_with_blank'', Str b),
       (''correct_answer'', Str c), (''explanation'', Str e), (''answer_choices'', StrList cs)]
     \<Longrightarrow> fst (show_fill_blank inp u) = Inr ()"
  by (simp_all add: show_hangul_eq show_english_eq show_fill_blank_eq check_answer_def act
        getitem_def)

lemma enter_quiz_failed:
  "enter_hangul t = (Inl e, t') \<Longrightarrow> session_state t' = session_state t"
  "enter_english t = (Inl e, t') \<Longrightarrow> session_state t' = session_state t"
  "enter_fill_blank t = (Inl e, t') \<Longrightarrow> session_state t' = session_state t"
  using generate_hangul_quiz_session [of _ t] generate_english_quiz_session [of _ t]
    generate_fill_blank_session [of _ t]
  by (auto simp: enter_hangul_eq enter_english_eq enter_fill_blank_eq
      split: sum.splits if_splits prod.splits) (metis snd_conv)+

lemma show_topic_failed:
  "fst (show_topic inp t) = Inl e \<Longrightarrow> session_state (snd (show_topic inp t)) = session_state t"
  by (auto simp: show_topic_def act split: sum.splits if_splits)

lemma step0_eq:
  "step0 inp t =
     (case enter_topic (t\<lparr>page := page t @ [Subheader ''Step 1: Generate a Random Topic'']\<rparr>) of
        (Inl e, t') \<Rightarrow> (Inl e, t')
      | (Inr x, t') \<Rightarrow> show_topic inp t')"
  by (simp add: step0_def py_then_def py_bind_def emit_def)

text \<open>
  Where a run that raises leaves the session as it was: at a quiz step (1, 2 or 3), always,
  because the generation reads every key it needs before line 183 (226, 271) stores the
  dictionary; at step 0, when the topic call itself fails.
\<close>

lemma failed_run_leaves_session:
  assumes failed: "fst (run_game_step inp t) = Inl e"
      and stage: "step (session_state t) \<in> {1, 2, 3}
                  \<or> (step (session_state t) = 0 \<and> fst (get_random_topic t) = Inl e')"
  shows "session_state (snd (run_game_step inp t)) = session_state t"
proof -
  consider (topic) "step (session_state t) = 0" "fst (get_random_topic t) = Inl e'"
    | (hangul) "step (session_state t) = 1" | (english) "step (session_state t) = 2"
    | (fill) "step (session_state t) = 3"
    using stage by auto
  then show ?thesis
  proof cases
    case topic
    define t1 where "t1 = t\<lparr>page := page t @ [Subheader ''Step 1: Generate a Random Topic'']\<rparr>"
    have gw: "gateway t1 (length (calls t1)) RandomTopic ''Come up with a random noun or phrase.''
                = Inl e'"
      using topic(2) by (simp add: t1_def get_random_topic_def get_json_response_def)
    have run: "run_game_step inp t = step0 inp t" using topic(1) by (simp add: run_game_step_eq)
    show ?thesis
    proof (cases "topic_info (session_state t1) = None")
      case True
      with gw show ?thesis unfolding run
        by (simp add: step0_eq t1_def [symmetric] enter_topic_eq) (simp add: t1_def)
    next
      case False
      then obtain d where "topic_info (session_state t1) = Some d" by auto
      then have "step0 inp t = show_topic inp t1"
        by (simp add: step0_eq t1_def [symmetric] enter_topic_eq)
      with failed run show_topic_failed [of inp t1 e] show ?thesis by (simp add: t1_def)
    qed
  next
    case hangul
    define t1 where "t1 = t\<lparr>page := page t @ [Subheader ''Step 2: Pronunciation from Hangul'']\<rparr>"
    have s1: "session_state t1 = session_state t" by (simp add: t1_def)
    obtain r t2 where en: "enter_hangul t1 = (r, t2)" by (cases "enter_hangul t1")
    have run: "run_game_step inp t = step1 inp t" using hangul by (simp add: run_game_step_eq)
    show ?thesis
    proof (cases r)
      case (Inl err)
      with en enter_quiz_failed(1) [of t1 err t2] s1 show ?thesis
        unfolding run by (simp add: step1_eq t1_def [symmetric])
    next
      case (Inr topic)
      have sh: "step1 inp t = show_hangul inp t2"
        using en Inr by (simp add: step1_eq t1_def [symmetric])
      have "hangul_quiz_data (session_state t1) \<noteq> []"
      proof
        assume empty: "hangul_quiz_data (session_state t1) = []"
        from enter_hangul_generated [of t1 topic t2] en Inr empty obtain q where
          g: "generate_hangul_quiz topic t1 = (Inr q, t2\<lparr>session_state := session_state t1\<rparr>)"
          and q: "session_state t2 = (session_state t1)\<lparr>hangul_quiz_data := q\<rparr>"
          by blast
        from generate_hangul_quiz_shape [OF g] q have "fst (show_hangul inp t2) = Inr ()"
          by (auto intro: shown_after_generation(1))
        with failed run sh show False by simp
      qed
      from enter_quiz_reuse(1) [OF this] en have "t2 = t1" by simp
      with sh s1 core_fields(1) [OF show_hangul_core, of inp t1] show ?thesis
        unfolding run by simp
    qed
  next
    case english
    define t1 where "t1 = t\<lparr>page := page t @ [Subheader ''Step 3: Pronunciation from English'']\<rparr>"
    have s1: "session_state t1 = session_state t" by (simp add: t1_def)
    obtain r t2 where en: "enter_english t1 = (r, t2)" by (cases "enter_english t1")
    have run: "run_game_step inp t = step2 inp t" using english by (simp add: run_game_step_eq)
    show ?thesis
    proof (cases r)
      case (Inl err)
      with en enter_quiz_failed(2) [of t1 err t2] s1 show ?thesis
        unfolding run by (simp add: step2_eq t1_def [symmetric])
    next
      case (Inr topic)
      have sh: "step2 inp t = show_english inp topic t2"
        using en Inr by (simp add: step2_eq t1_def [symmetric])
      have "english_quiz_data (session_state t1) \<noteq> []"
      proof
        assume empty: "english_quiz_data (session_state t1) = []"
        from enter_english_generated [of t1 topic t2] en Inr empty obtain q where
          g: "generate_english_quiz topic t1 = (Inr q, t2\<lparr>session_state := session_state t1\<rparr>)"
          and q: "session_state t2 = (session_state t1)\<lparr>english_quiz_data := q\<rparr>"
          by blast
        from generate_english_quiz_shape [OF g] q have "fst (show_english inp topic t2) = Inr ()"
          by (auto intro: shown_after_generation(2))
        with failed run sh show False by simp
      qed
      from enter_quiz_reuse(2) [OF this] en have "t2 = t1" by simp
      with sh s1 core_fields(1) [OF show_english_core, of inp topic t1] show ?thesis
        unfolding run by simp
    qed
  next
    case fill
    define t1 where "t1 = t\<lparr>page := page t @ [Subheader ''Step 4: Fill in the Blank'']\<rparr>"
    have s1: "session_state t1 = session_state t" by (simp add: t1_def)
    obtain r t2 where en: "enter_fill_blank t1 = (r, t2)" by (cases "enter_fill_blank t1")
    have run: "run_game_step inp t = step3 inp t" using fill by (simp add: run_game_step_eq)
    show ?thesis
    proof (cases r)
      case (Inl err)
      with en enter_quiz_failed(3) [of t1 err t2] s1 show ?thesis
        unfolding run by (simp add: step3_eq t1_def [symmetric])
    next
      case (Inr topic)
      have sh: "step3 inp t = show_fill_blank inp t2"
        using en Inr by (simp add: step3_eq t1_def [symmetric])
      have "fill_blank_data (session_state t1) \<noteq> []"
      proof
        assume empty: "fill_blank_data (session_state t1) = []"
        from enter_fill_blank_generated [of t1 topic t2] en Inr empty obtain q where
          g: "generate_fill_blank topic t1 = (Inr q, t2\<lparr>session_state := session_state t1\<rparr>)"
          and q: "session_state t2 = (session_state t1)\<lparr>fill_blank_data := q\<rparr>"
          by blast
        from generate_fill_blank_shape [OF g] q have "fst (show_fill_blank inp t2) = Inr ()"
          by (auto intro: shown_after_generation(3))
        with failed run sh show False by simp
      qed
      from enter_quiz_reuse(3) [OF this] en have "t2 = t1" by simp
      with sh s1 core_fields(1) [OF show_fill_blank_core, of inp t1] show ?thesis
        unfolding run by simp
    qed
  qed
qed

text \<open>Step 1 with a pronunciation reply that lacks \<^verbatim>\<open>final_sequence\<close>.\<close>

lemma no_final_sequence_run:
  "run_game_step no_click (at_step 1 no_final_sequence_gateway)
     = (Inl (KeyError ''final_sequence''),
        (at_step 1 no_final_sequence_gateway)
          \<lparr>calls := [(EnglishToHangul, ''apple''), (HangulToPronunciation, ''sagwa'')],
           page := [Subheader ''Step 2: Pronunciation from Hangul'']\<rparr>)"
  by (simp add: script scenario no_click_def no_final_sequence_gateway_def)

lemma no_final_sequence_leaves_session:
  "fst (run_game_step no_click (at_step 1 no_final_sequence_gateway))
     = Inl (KeyError ''final_sequence'')
   \<and> session_state (snd (run_game_step no_click (at_step 1 no_final_sequence_gateway)))
       = session_state (at_step 1 no_final_sequence_gateway)
   \<and> hangul_quiz_data
        (session_state (snd (run_game_step no_click (at_step 1 no_final_sequence_gateway)))) = []"
proof -
  have h1: "fst (run_game_step no_click (at_step 1 no_final_sequence_gateway))
     = Inl (KeyError ''final_sequence'')"
    by (simp add: no_final_sequence_run)
  have h2: "step (session_state (at_step 1 no_final_sequence_gateway)) \<in> {1, 2, 3}
      \<or> (step (session_state (at_step 1 no_final_sequence_gateway)) = 0
         \<and> fst (get_random_topic (at_step 1 no_final_sequence_gateway)) = Inl GatewayError)"
    by (simp add: at_step_def)
  have h3: "hangul_quiz_data (session_state (at_step 1 no_final_sequence_gateway)) = []"
    by (simp add: at_step_def init_session_def)
  from failed_run_leaves_session [OF h1 h2] h1 h3 show ?thesis
    by simp
qed

text \<open>
  C6. The claim is that a failed stage entry leaves the session unchanged, so that a retry
  is safe. Steps 1 to 3 do so. Step 0 does not: line 155 stores the reply of the topic
  call in \<^verbatim>\<open>topic_info\<close> before any key of it is read. On a new session, with a topic
  reply that lacks \<^verbatim>\<open>topic\<close>, stage entry reports success, line 158 raises
  \<^verbatim>\<open>KeyError\<close>, and the session holds the reply. The next run finds a topic, makes no
  call, and raises the same error: no retry gets out of it.
\<close>

theorem topic_reply_without_key_is_stored:
  "topic_info (session_state (fresh no_topic_gateway first_slot)) = None
   \<and> fst (enter_stage (fresh no_topic_gateway first_slot)) = Inr ()
   \<and> fst (run_game_step no_click (fresh no_topic_gateway first_slot)) = Inl (KeyError ''topic'')
   \<and> topic_info (session_state (snd (run_game_step no_click (fresh no_topic_gateway first_slot))))
       = Some [(''tutorial'', ''sagwa'')]
   \<and> fst (run_game_step no_click (rerun no_click (fresh no_topic_gateway first_slot)))
       = Inl (KeyError ''topic'')
   \<and> calls (snd (run_game_step no_click (rerun no_click (fresh no_topic_gateway first_slot))))
       = [(RandomTopic, ''Come up with a random noun or phrase.'')]"
  by (simp add: script scenario no_click_def no_topic_gateway_def rerun_def)

end
